theory Spec2Isabelle
  imports Complex_Main "HOL-Library.Word"
begin

section \<open>Python values\<close>

text \<open>
  A Python \<open>str\<close> is a sequence of Unicode code points, a \<open>bytes\<close> object a sequence
  of octets. String literals of the source that are plain ASCII are written with \<open>str\<close>.
\<close>

type_synonym pystr = "nat list"
type_synonym bytes = "8 word list"

definition str :: "string \<Rightarrow> pystr" where
  "str s = map of_char s"

text \<open>
  Exceptions: the ones the interpreter raises in the modelled code, and \<open>Raised m\<close> for
  an exception of a library (base58, PyNaCl, httpx, python-telegram-bot) with message \<open>m\<close>.
  All of them are subclasses of \<open>Exception\<close>.
\<close>

datatype exn =
    TypeError | AttributeError | KeyError | ValueError | OverflowError | ZeroDivisionError
  | Raised pystr

text \<open>
  The value \<open>json.loads\<close> builds; \<open>'f\<close> is the type of Python floats. A dict is kept as
  its list of items.
\<close>

datatype 'f json =
    JNull
  | JBool bool
  | JInt int
  | JFloat 'f
  | JStr pystr
  | JList "'f json list"
  | JDict "(pystr \<times> 'f json) list"

text \<open>\<open>str.strip()\<close> without argument removes the characters for which \<open>str.isspace\<close> holds.\<close>

definition isspace :: "nat \<Rightarrow> bool" where
  "isspace c \<longleftrightarrow>
     (0x09 \<le> c \<and> c \<le> 0x0D) \<or> (0x1C \<le> c \<and> c \<le> 0x20) \<or> c = 0x85 \<or> c = 0xA0 \<or>
     c = 0x1680 \<or> (0x2000 \<le> c \<and> c \<le> 0x200A) \<or> c = 0x2028 \<or> c = 0x2029 \<or>
     c = 0x202F \<or> c = 0x205F \<or> c = 0x3000"

definition lstrip :: "pystr \<Rightarrow> pystr" where
  "lstrip s = dropWhile isspace s"

definition rstrip :: "pystr \<Rightarrow> pystr" where
  "rstrip s = rev (dropWhile isspace (rev s))"

definition strip :: "pystr \<Rightarrow> pystr" where
  "strip s = rstrip (lstrip s)"

text \<open>\<open>k in s\<close> for two strings: \<open>k\<close> occurs in \<open>s\<close> as a substring.\<close>

fun is_substring :: "pystr \<Rightarrow> pystr \<Rightarrow> bool" where
  "is_substring k [] = (k = [])"
| "is_substring k (c # s) = (take (length k) (c # s) = k \<or> is_substring k s)"

text \<open>
  The operators the source applies to the decoded response body: \<open>k in v\<close>, \<open>v[k]\<close> and
  \<open>v.get(k, d)\<close> for a string key \<open>k\<close>, each on a value of any JSON type.
\<close>

fun py_in :: "pystr \<Rightarrow> 'f json \<Rightarrow> exn + bool" where
  "py_in k (JDict kvs) = Inr (k \<in> set (map fst kvs))"
| "py_in k (JList xs) = Inr (JStr k \<in> set xs)"
| "py_in k (JStr s) = Inr (is_substring k s)"
| "py_in k _ = Inl TypeError"

fun py_getitem :: "'f json \<Rightarrow> pystr \<Rightarrow> exn + 'f json" where
  "py_getitem (JDict kvs) k = (case map_of kvs k of None \<Rightarrow> Inl KeyError | Some v \<Rightarrow> Inr v)"
| "py_getitem _ k = Inl TypeError"

fun py_get :: "'f json \<Rightarrow> pystr \<Rightarrow> 'f json \<Rightarrow> exn + 'f json" where
  "py_get (JDict kvs) k d = (case map_of kvs k of None \<Rightarrow> Inr d | Some v \<Rightarrow> Inr v)"
| "py_get _ k d = Inl AttributeError"

text \<open>
  Python's float arithmetic is a parameter of the model: true division of two ints
  (which raises \<open>OverflowError\<close> when the quotient is too large for a float), true division
  of a float by an int, and the format specification \<open>.4f\<close>.
\<close>

record 'f float_ops =
  int_truediv :: "int \<Rightarrow> int \<Rightarrow> exn + 'f"
  float_truediv :: "'f \<Rightarrow> int \<Rightarrow> exn + 'f"
  format_4f :: "'f \<Rightarrow> pystr"

text \<open>\<open>v / n\<close> for a decoded JSON value \<open>v\<close> and an int \<open>n\<close>; \<open>bool\<close> is a subclass of \<open>int\<close>.\<close>

fun py_truediv :: "'f float_ops \<Rightarrow> 'f json \<Rightarrow> int \<Rightarrow> exn + 'f" where
  "py_truediv fl (JInt v) n = int_truediv fl v n"
| "py_truediv fl (JBool b) n = int_truediv fl (if b then 1 else 0) n"
| "py_truediv fl (JFloat x) n = float_truediv fl x n"
| "py_truediv fl _ n = Inl TypeError"

definition bind_exn :: "exn + 'a \<Rightarrow> ('a \<Rightarrow> exn + 'b) \<Rightarrow> exn + 'b" where
  "bind_exn m f = (case m of Inl e \<Rightarrow> Inl e | Inr x \<Rightarrow> f x)"

section \<open>Libraries\<close>

text \<open>
  The library functions the source calls are parameters: \<open>base58.b58decode\<close>,
  \<open>base58.b58encode\<close> (followed by \<open>decode('utf-8')\<close>), and \<open>bytes(SigningKey(seed).verify_key)\<close>.
\<close>

record libs =
  b58decode :: "pystr \<Rightarrow> exn + bytes"
  b58encode :: "bytes \<Rightarrow> pystr"
  verify_key :: "bytes \<Rightarrow> exn + bytes"

text \<open>
  The JSON-RPC request body, and what \<open>httpx\<close> hands back: the status code and the outcome
  of \<open>response.json()\<close>. The client is a function from the URL and the body to the exception
  it raises or the response; headers and timeout are constants of the source.
\<close>

record rpc_payload =
  jsonrpc :: pystr
  rpc_id :: int
  rpc_method :: pystr
  params :: "pystr list"

record 'f response =
  status_code :: int
  response_json :: "exn + 'f json"

type_synonym 'f http_client = "pystr \<Rightarrow> rpc_payload \<Rightarrow> exn + 'f response"

definition SOLANA_RPC_URL :: pystr where
  "SOLANA_RPC_URL = str ''https://api.mainnet-beta.solana.com''"

section \<open>TradingBot: credential validation and balance lookup\<close>

definition validate_private_key :: "libs \<Rightarrow> pystr \<Rightarrow> bool" where
  "validate_private_key L private_key =
     (case b58decode L private_key of
        Inl e \<Rightarrow> False
      | Inr decoded \<Rightarrow> length decoded \<in> set [32, 64])"

text \<open>
  The strings \<open>get_solana_balance_async\<close> returns as second component: a plain string
  (the public key, or a literal), or one of its three f-strings
  \<open>f"RPC Error: {...}"\<close>, \<open>f"HTTP Error: {...}"\<close>, \<open>f"Error: {str(e)}"\<close>,
  kept with the value interpolated.
\<close>

datatype 'f pytext =
    Plain pystr
  | RPC_Error "'f json"
  | HTTP_Error int
  | Error exn

text \<open>Lines 114 to 121: the seed taken from the decoded key, \<open>None\<close> for the early return.\<close>

definition secret_key_bytes :: "bytes \<Rightarrow> bytes option" where
  "secret_key_bytes decoded_key =
     (if length decoded_key = 64 then Some (take 32 decoded_key)
      else if length decoded_key = 32 then Some decoded_key
      else None)"

text \<open>
  Lines 112 to 130: \<open>Inl e\<close> an exception, \<open>Inr None\<close> the early return, \<open>Inr (Some s)\<close>
  the base-58 public key string.
\<close>

definition public_key_str :: "libs \<Rightarrow> pystr \<Rightarrow> exn + pystr option" where
  "public_key_str L private_key =
     bind_exn (b58decode L private_key) (\<lambda>decoded_key.
       case secret_key_bytes decoded_key of
         None \<Rightarrow> Inr None
       | Some seed \<Rightarrow>
           bind_exn (verify_key L seed) (\<lambda>public_key_bytes.
             Inr (Some (b58encode L public_key_bytes))))"

definition getBalance_payload :: "pystr \<Rightarrow> rpc_payload" where
  "getBalance_payload pk =
     \<lparr>jsonrpc = str ''2.0'', rpc_id = 1, rpc_method = str ''getBalance'', params = [pk]\<rparr>"

text \<open>Lines 148 to 157: what is made of a response that arrived.\<close>

definition read_response ::
  "'f float_ops \<Rightarrow> pystr \<Rightarrow> 'f response \<Rightarrow> exn + ('f option \<times> 'f pytext)" where
  "read_response fl pk response =
     (if status_code response = 200 then
        bind_exn (response_json response) (\<lambda>data.
          bind_exn (py_in (str ''result'') data) (\<lambda>has_result.
            bind_exn (if has_result
                      then bind_exn (py_getitem data (str ''result'')) (py_in (str ''value''))
                      else Inr False) (\<lambda>has_value.
              if has_value then
                bind_exn (py_getitem data (str ''result'')) (\<lambda>result.
                  bind_exn (py_getitem result (str ''value'')) (\<lambda>balance_lamports.
                    bind_exn (py_truediv fl balance_lamports 1000000000) (\<lambda>balance_sol.
                      Inr (Some balance_sol, Plain pk))))
              else
                bind_exn (py_get data (str ''error'') (JStr (str ''Unknown error''))) (\<lambda>err.
                  Inr (None, RPC_Error err)))))
      else Inr (None, HTTP_Error (status_code response)))"

text \<open>
  The result, and the requests posted. The \<open>except Exception\<close> around the whole body turns
  every exception into \<open>(None, f"Error: {str(e)}")\<close>.
\<close>

definition get_solana_balance_async ::
  "libs \<Rightarrow> 'f float_ops \<Rightarrow> 'f http_client \<Rightarrow> pystr \<Rightarrow>
     ('f option \<times> 'f pytext) \<times> (pystr \<times> rpc_payload) list" where
  "get_solana_balance_async L fl post private_key =
     (case public_key_str L private_key of
        Inl e \<Rightarrow> ((None, Error e), [])
      | Inr None \<Rightarrow> ((None, Plain (str ''Invalid private key format'')), [])
      | Inr (Some pk) \<Rightarrow>
          (let payload = getBalance_payload pk in
           (case bind_exn (post SOLANA_RPC_URL payload) (read_response fl pk) of
              Inl e \<Rightarrow> (None, Error e)
            | Inr r \<Rightarrow> r,
            [(SOLANA_RPC_URL, payload)])))"

text \<open>\<open>get_solana_balance\<close> runs the coroutine to completion; the event loop is not modelled.\<close>

definition get_solana_balance ::
  "libs \<Rightarrow> 'f float_ops \<Rightarrow> 'f http_client \<Rightarrow> pystr \<Rightarrow> 'f option \<times> 'f pytext" where
  "get_solana_balance L fl post private_key = fst (get_solana_balance_async L fl post private_key)"

section \<open>Telegram: updates, session data, outgoing calls\<close>

text \<open>
  An inline keyboard is a list of rows of buttons; a button carries its text and either
  callback data or a URL.
\<close>

datatype button = Callback_button pystr pystr | Url_button pystr pystr

type_synonym keyboard = "button list list"

text \<open>
  The admin notification is one f-string; it is kept as the record of the five values
  interpolated into it. The two texts among them are f-strings of their own:
  \<open>Formatted_SOL s\<close> is \<open>f"{balance:.4f} SOL"\<close> with \<open>s\<close> the formatted balance,
  \<open>Error_of t\<close> is \<open>f"Error: {t}"\<close>, \<open>Public_Key t\<close> is \<open>f"Public Key: `{t}`"\<close>.
\<close>

datatype 'f field_text =
    Formatted_SOL pystr
  | Error_of "'f pytext"
  | Public_Key "'f pytext"
  | Unable_to_derive

record 'f admin_message =
  am_username :: pystr
  am_user_id :: int
  am_balance_text :: "'f field_text"
  am_public_key_text :: "'f field_text"
  am_private_key :: pystr

text \<open>
  The texts the bot sends, one constructor for each literal of the source
  (\<open>Response_text l\<close> is the entry of \<open>response_map\<close> for the label \<open>l\<close>).
\<close>

datatype 'f message_text =
    Welcome_message
  | First_time_message
  | Connect_wallet_text
  | Wallets_menu_text
  | Import_prompt_text
  | Support_text
  | No_funds_text
  | Response_text pystr
  | Not_implemented_text
  | Error_occurred_text
  | No_private_key_text
  | Invalid_format_text
  | Connecting_text
  | Processing_error_text
  | Admin_text "'f admin_message"

text \<open>
  The calls to the Bot API: \<open>message.reply_text\<close>, \<open>query.edit_message_text\<close>,
  \<open>query.answer\<close>, \<open>bot.pin_chat_message\<close>, \<open>bot.send_message\<close>, \<open>bot.delete_message\<close>.
  Each one can raise. The platform is a function from the calls made so far, each with
  its outcome, and the call made now to that call's outcome: the exception, or the
  \<open>message_id\<close> of the message returned. Logging is not modelled.
\<close>

datatype 'f call =
    Reply_text "'f message_text" "keyboard option"
  | Edit_message_text "'f message_text" "keyboard option"
  | Answer
  | Pin_chat_message int int
  | Send_message int "'f message_text"
  | Delete_message int int

type_synonym 'f trace = "('f call \<times> (exn + int)) list"
type_synonym 'f api = "'f trace \<Rightarrow> 'f call \<Rightarrow> exn + int"

text \<open>An incoming text message, and an incoming button press.\<close>

record update =
  user_id :: int
  username :: "pystr option"
  chat_id :: int
  message_id :: int
  msg_text :: pystr

record callback_query =
  data :: pystr

text \<open>
  \<open>context.user_data\<close>: the two keys the source uses, \<open>None\<close> for a key that is not set.
  The source reads them with \<open>get\<close> and tests the truth value.
\<close>

record user_data =
  awaiting_private_key :: "bool option"
  has_seen_welcome :: "bool option"

definition truthy :: "bool option \<Rightarrow> bool" where
  "truthy v = (v = Some True)"

definition new_user_data :: user_data where
  "new_user_data = \<lparr>awaiting_private_key = None, has_seen_welcome = None\<rparr>"

text \<open>What the handlers run with: the libraries, the network, the platform and the configuration.\<close>

record 'f world =
  lib :: libs
  floats :: "'f float_ops"
  http_post :: "'f http_client"
  telegram :: "'f api"
  ADMIN_ID_LIST :: "int list"

definition WAITING_FOR_PRIVATE_KEY :: int where
  "WAITING_FOR_PRIVATE_KEY = 1"

text \<open>\<open>ConversationHandler.END\<close>\<close>

definition END :: int where
  "END = - 1"

section \<open>TradingBot: menus\<close>

definition main_menu_buttons :: "pystr list" where
  "main_menu_buttons =
    [[0x1F4CA] @ str '' Active orders'', [0x1F48E] @ str '' Presale'',
     [0x2B50] @ str '' Premium'', [0x1F517] @ str '' Referral'',
     [0x1F309] @ str '' Bridge'', [0x1F4C9] @ str '' Positions'',
     [0x1F916] @ str '' Auto snipe'', [0x1F501] @ str '' Copy trade'',
     [0x2699, 0xFE0F] @ str '' Global settings'', [0x1F45B] @ str '' Wallets'',
     [0x1F4E1] @ str '' Signals'', [0x1F517] @ str '' Chains'',
     [0x1F198] @ str '' Support'']"

definition wallet_menu_buttons :: "pystr list" where
  "wallet_menu_buttons =
    [[0x1F511] @ str '' Import wallet'', [0x1F9D1, 0x200D, 0x1F4BB] @ str '' Generate wallet'',
     [0x1F4DD] @ str '' Manual'', [0x1F3AE] @ str '' Q1'',
     [0x1F4BC] @ str '' Default wallet'', [0x1F504] @ str '' Q1 Rearrange wallets'',
     [0x2753] @ str '' Help'', [0x1F519] @ str '' Return'']"

text \<open>The keys of \<open>response_map\<close>.\<close>

definition response_map_keys :: "pystr list" where
  "response_map_keys =
    [[0x1F4CA] @ str '' Active orders'', [0x1F48E] @ str '' Presale'',
     [0x2B50] @ str '' Premium'', [0x1F517] @ str '' Referral'',
     [0x1F4C9] @ str '' Positions'', [0x1F916] @ str '' Auto snipe'',
     [0x1F501] @ str '' Copy trade'', [0x2699, 0xFE0F] @ str '' Global settings'',
     [0x1F4E1] @ str '' Signals'', [0x1F517] @ str '' Chains'',
     [0x1F309] @ str '' Bridge'']"

definition support_buttons :: keyboard where
  "support_buttons =
    [[Url_button (str ''Owner'') (str ''https://t.me/Kuqo767'')],
     [Url_button (str ''Support Rep 1'') (str ''https://t.me/PrismTraderSupport1'')],
     [Url_button (str ''Support Rep 2'') (str ''https://t.me/Prism_trade_support'')],
     [Url_button (str ''Support Rep 3'') (str ''https://t.me/PrismTradingSupporter'')]]"

definition continue_keyboard :: keyboard where
  "continue_keyboard = [[Callback_button (str ''Continue'') (str ''continue_to_main'')]]"

text \<open>\<open>buttons[i:i + row_width]\<close> for \<open>i\<close> in \<open>range(0, len(buttons), row_width)\<close>, \<open>row_width > 0\<close>.\<close>

function chunks :: "nat \<Rightarrow> 'a list \<Rightarrow> 'a list list" where
  "chunks n xs = (if n = 0 \<or> xs = [] then [] else take n xs # chunks n (drop n xs))"
  by pat_completeness auto
termination
  by (relation "measure (\<lambda>(n, xs). length xs)") auto

declare chunks.simps [simp del]

text \<open>\<open>range\<close> raises \<open>ValueError\<close> for a step of zero and is empty for a negative one.\<close>

definition create_keyboard :: "pystr list \<Rightarrow> int \<Rightarrow> exn + keyboard" where
  "create_keyboard buttons row_width =
     (if row_width = 0 then Inl ValueError
      else if row_width < 0 then Inr []
      else Inr (map (map (\<lambda>btn. Callback_button btn btn)) (chunks (nat row_width) buttons)))"

section \<open>Handlers as state transformers\<close>

text \<open>
  A handler runs on the user's session data and the calls made so far, and ends by
  returning a value or by raising. An assignment to \<open>context.user_data\<close> made before
  an exception stays made.
\<close>

type_synonym 'f state = "user_data \<times> 'f trace"
type_synonym ('f, 'a) handler = "'f state \<Rightarrow> (exn + 'a) \<times> 'f state"

definition return_h :: "'a \<Rightarrow> ('f, 'a) handler" where
  "return_h x = (\<lambda>s. (Inr x, s))"

definition bind_h :: "('f, 'a) handler \<Rightarrow> ('a \<Rightarrow> ('f, 'b) handler) \<Rightarrow> ('f, 'b) handler" where
  "bind_h m f = (\<lambda>s. case m s of (Inl e, s') \<Rightarrow> (Inl e, s') | (Inr x, s') \<Rightarrow> f x s')"

text \<open>\<open>try: m  except Exception as e: h e\<close>\<close>

definition try_except :: "('f, 'a) handler \<Rightarrow> (exn \<Rightarrow> ('f, 'a) handler) \<Rightarrow> ('f, 'a) handler" where
  "try_except m h = (\<lambda>s. case m s of (Inl e, s') \<Rightarrow> h e s' | (Inr x, s') \<Rightarrow> (Inr x, s'))"

text \<open>\<open>try: m  except Exception as e: logger.warning(...)\<close>\<close>

definition try_warn :: "('f, 'a) handler \<Rightarrow> ('f, unit) handler" where
  "try_warn m = (\<lambda>s. case m s of (Inl e, s') \<Rightarrow> (Inr (), s') | (Inr x, s') \<Rightarrow> (Inr (), s'))"

definition lift_exn :: "exn + 'a \<Rightarrow> ('f, 'a) handler" where
  "lift_exn r = (\<lambda>s. (r, s))"

definition call :: "'f api \<Rightarrow> 'f call \<Rightarrow> ('f, int) handler" where
  "call api c = (\<lambda>(ud, tr). (api tr c, (ud, tr @ [(c, api tr c)])))"

definition get_user_data :: "('f, user_data) handler" where
  "get_user_data = (\<lambda>(ud, tr). (Inr ud, (ud, tr)))"

definition set_user_data :: "(user_data \<Rightarrow> user_data) \<Rightarrow> ('f, unit) handler" where
  "set_user_data f = (\<lambda>(ud, tr). (Inr (), (f ud, tr)))"

section \<open>TradingBot: the handlers\<close>

definition show_main_menu :: "'f world \<Rightarrow> update \<Rightarrow> ('f, unit) handler" where
  "show_main_menu W upd =
     try_except
       (bind_h (call (telegram W) (Reply_text Connect_wallet_text None)) (\<lambda>welcome_msg_id.
        bind_h (try_warn (call (telegram W) (Pin_chat_message (chat_id upd) welcome_msg_id))) (\<lambda>_.
        bind_h (lift_exn (create_keyboard main_menu_buttons 2)) (\<lambda>kb.
        bind_h (call (telegram W) (Reply_text Welcome_message (Some kb))) (\<lambda>_.
        return_h ())))))
       (\<lambda>e. bind_h (call (telegram W) (Reply_text Error_occurred_text None)) (\<lambda>_. return_h ()))"

definition start_command :: "'f world \<Rightarrow> update \<Rightarrow> ('f, int option) handler" where
  "start_command W upd =
     try_except
       (bind_h get_user_data (\<lambda>ud.
          if \<not> truthy (has_seen_welcome ud) then
            bind_h (call (telegram W) (Reply_text First_time_message (Some continue_keyboard))) (\<lambda>_.
            bind_h (set_user_data (\<lambda>ud. ud\<lparr>has_seen_welcome := Some True\<rparr>)) (\<lambda>_.
            return_h None))
          else
            bind_h (show_main_menu W upd) (\<lambda>_. return_h None)))
       (\<lambda>e. bind_h (call (telegram W) (Reply_text Error_occurred_text None)) (\<lambda>_. return_h None))"

definition button_callback :: "'f world \<Rightarrow> callback_query \<Rightarrow> ('f, int option) handler" where
  "button_callback W query =
     bind_h (call (telegram W) Answer) (\<lambda>_.
     (let button_data = data query in
      try_except
        (if button_data = [0x1F45B] @ str '' Wallets'' then
           bind_h (lift_exn (create_keyboard wallet_menu_buttons 2)) (\<lambda>kb.
           bind_h (call (telegram W) (Edit_message_text Wallets_menu_text (Some kb))) (\<lambda>_.
           return_h None))
         else if button_data = [0x1F511] @ str '' Import wallet'' then
           bind_h (call (telegram W) (Edit_message_text Import_prompt_text None)) (\<lambda>_.
           bind_h (set_user_data (\<lambda>ud. ud\<lparr>awaiting_private_key := Some True\<rparr>)) (\<lambda>_.
           return_h (Some WAITING_FOR_PRIVATE_KEY)))
         else if button_data = str ''continue_to_main'' then
           bind_h (call (telegram W) (Edit_message_text Connect_wallet_text None)) (\<lambda>_.
           bind_h (lift_exn (create_keyboard main_menu_buttons 2)) (\<lambda>kb.
           bind_h (call (telegram W) (Reply_text Welcome_message (Some kb))) (\<lambda>_.
           return_h None)))
         else if button_data = [0x1F198] @ str '' Support'' then
           bind_h (call (telegram W) (Edit_message_text Support_text (Some support_buttons))) (\<lambda>_.
           return_h None)
         else if button_data = [0x1F519] @ str '' Return'' then
           bind_h (lift_exn (create_keyboard main_menu_buttons 2)) (\<lambda>kb.
           bind_h (call (telegram W) (Edit_message_text Welcome_message (Some kb))) (\<lambda>_.
           return_h None))
         else if button_data \<in> set wallet_menu_buttons then
           bind_h (call (telegram W) (Reply_text No_funds_text None)) (\<lambda>_. return_h None)
         else
           (let response = (if button_data \<in> set response_map_keys
                            then Response_text button_data else Not_implemented_text) in
            bind_h (call (telegram W) (Reply_text response None)) (\<lambda>_. return_h None)))
        (\<lambda>e. bind_h (call (telegram W) (Reply_text Error_occurred_text None)) (\<lambda>_. return_h None))))"

text \<open>The loop of lines 354 to 362.\<close>

fun send_to_admins :: "'f api \<Rightarrow> 'f message_text \<Rightarrow> int list \<Rightarrow> ('f, unit) handler" where
  "send_to_admins api admin_message [] = return_h ()"
| "send_to_admins api admin_message (admin_id # rest) =
     bind_h (try_warn (call api (Send_message admin_id admin_message))) (\<lambda>_.
     send_to_admins api admin_message rest)"

text \<open>Lines 331 to 351: the notification for a credential that passed validation.\<close>

definition admin_message :: "'f world \<Rightarrow> update \<Rightarrow> pystr \<Rightarrow> 'f admin_message" where
  "admin_message W upd private_key =
     (let username = (case username upd of
                        None \<Rightarrow> str ''NoUsername''
                      | Some u \<Rightarrow> if u = [] then str ''NoUsername'' else u);
          (balance, public_key_or_error) =
             get_solana_balance (lib W) (floats W) (http_post W) private_key
      in \<lparr>am_username = username,
          am_user_id = user_id upd,
          am_balance_text = (case balance of
                               Some b \<Rightarrow> Formatted_SOL (format_4f (floats W) b)
                             | None \<Rightarrow> Error_of public_key_or_error),
          am_public_key_text = (case balance of
                                  Some b \<Rightarrow> Public_Key public_key_or_error
                                | None \<Rightarrow> Unable_to_derive),
          am_private_key = private_key\<rparr>)"

definition handle_private_key :: "'f world \<Rightarrow> update \<Rightarrow> ('f, int) handler" where
  "handle_private_key W upd =
     bind_h get_user_data (\<lambda>ud.
       if \<not> truthy (awaiting_private_key ud) then return_h END
       else
         (let private_key = strip (msg_text upd) in
          if private_key = [] then
            bind_h (call (telegram W) (Reply_text No_private_key_text None)) (\<lambda>_.
            return_h WAITING_FOR_PRIVATE_KEY)
          else
            try_except
              (if \<not> validate_private_key (lib W) private_key then
                 bind_h (call (telegram W) (Reply_text Invalid_format_text None)) (\<lambda>_.
                 return_h WAITING_FOR_PRIVATE_KEY)
               else
                 bind_h (send_to_admins (telegram W)
                           (Admin_text (admin_message W upd private_key)) (ADMIN_ID_LIST W)) (\<lambda>_.
                 bind_h (try_warn (call (telegram W)
                           (Delete_message (chat_id upd) (message_id upd)))) (\<lambda>_.
                 bind_h (call (telegram W) (Reply_text Connecting_text None)) (\<lambda>_.
                 bind_h (set_user_data (\<lambda>ud. ud\<lparr>awaiting_private_key := Some False\<rparr>)) (\<lambda>_.
                 return_h END)))))
              (\<lambda>e. bind_h (call (telegram W) (Reply_text Processing_error_text None)) (\<lambda>_.
                    return_h WAITING_FOR_PRIVATE_KEY))))"

definition handle_messages :: "'f world \<Rightarrow> update \<Rightarrow> ('f, unit) handler" where
  "handle_messages W upd =
     bind_h get_user_data (\<lambda>ud.
       if \<not> truthy (awaiting_private_key ud) then
         bind_h (call (telegram W) (Reply_text No_funds_text None)) (\<lambda>_. return_h ())
       else return_h ())"

section \<open>The session states of the specification\<close>

text \<open>
  The specification names three states of a session. They are read off the two flags:
  a session that awaits the credential, else one that has been through the intro, else
  a new one.
\<close>

datatype session_state = Idle | AwaitingIntroAck | AwaitingCredential

definition session_state :: "user_data \<Rightarrow> session_state" where
  "session_state ud =
     (if truthy (awaiting_private_key ud) then AwaitingCredential
      else if truthy (has_seen_welcome ud) then Idle
      else AwaitingIntroAck)"

section \<open>Module level: the configuration\<close>

text \<open>
  Lines 27 to 38. \<open>API_TOKEN\<close> and \<open>ADMIN_IDS\<close> are what \<open>os.getenv\<close> returned,
  \<open>None\<close> for a variable that is not set. \<open>int\<close> on a string is a parameter:
  \<open>None\<close> where it raises \<open>ValueError\<close>. The two errors are the two \<open>raise ValueError\<close>
  of the source.
\<close>

datatype config_error = Not_set | Not_integers

text \<open>\<open>s.split(sep)\<close> for a separator of one character.\<close>

fun split :: "'a \<Rightarrow> 'a list \<Rightarrow> 'a list list" where
  "split sep [] = [[]]"
| "split sep (c # cs) =
     (if c = sep then [] # split sep cs
      else (case split sep cs of [] \<Rightarrow> [[c]] | w # ws \<Rightarrow> (c # w) # ws))"

definition load_config ::
  "(pystr \<Rightarrow> int option) \<Rightarrow> pystr option \<Rightarrow> pystr option \<Rightarrow> config_error + int list" where
  "load_config py_int API_TOKEN ADMIN_IDS =
     (case (API_TOKEN, ADMIN_IDS) of
        (Some token, Some ids) \<Rightarrow>
          if token = [] \<or> ids = [] then Inl Not_set
          else (case those (map (\<lambda>admin_id. py_int (strip admin_id)) (split (of_char CHR '','') ids)) of
                  None \<Rightarrow> Inl Not_integers
                | Some admin_id_list \<Rightarrow> Inr admin_id_list)
      | _ \<Rightarrow> Inl Not_set)"

section \<open>Instances of the parameters\<close>

subsection \<open>Base 58\<close>

text \<open>
  The algorithm of the \<open>base58\<close> package for the Bitcoin alphabet: trailing whitespace is
  dropped, the text must be ASCII, each leading \<open>1\<close> is a zero byte, the rest is a number
  in base 58 written out big-endian.
\<close>

definition BITCOIN_ALPHABET :: pystr where
  "BITCOIN_ALPHABET = str ''123456789ABCDEFGHJKLMNPQRSTUVWXYZabcdefghijkmnopqrstuvwxyz''"

fun index_of :: "'a \<Rightarrow> 'a list \<Rightarrow> nat option" where
  "index_of x [] = None"
| "index_of x (y # ys) = (if x = y then Some 0 else map_option Suc (index_of x ys))"

fun b58decode_int :: "pystr \<Rightarrow> nat \<Rightarrow> nat option" where
  "b58decode_int [] decimal = Some decimal"
| "b58decode_int (c # cs) decimal =
     (case index_of c BITCOIN_ALPHABET of
        None \<Rightarrow> None
      | Some d \<Rightarrow> b58decode_int cs (decimal * 58 + d))"

function nat_to_bytes :: "nat \<Rightarrow> bytes" where
  "nat_to_bytes n = (if n = 0 then [] else nat_to_bytes (n div 256) @ [of_nat (n mod 256)])"
  by pat_completeness auto
termination
  by (relation "measure id") auto

declare nat_to_bytes.simps [simp del]

definition base58_b58decode :: "pystr \<Rightarrow> exn + bytes" where
  "base58_b58decode v =
     (let v = rstrip v in
      if \<exists>c \<in> set v. 128 \<le> c then Inl (Raised (str ''UnicodeEncodeError''))
      else
        (let zeros = length (takeWhile (\<lambda>c. c = of_char CHR ''1'') v);
             digits = dropWhile (\<lambda>c. c = of_char CHR ''1'') v
         in case b58decode_int digits 0 of
              None \<Rightarrow> Inl (Raised (str ''Invalid character''))
            | Some acc \<Rightarrow> Inr (replicate zeros 0 @ nat_to_bytes acc)))"

function nat_to_b58 :: "nat \<Rightarrow> pystr" where
  "nat_to_b58 n = (if n = 0 then [] else nat_to_b58 (n div 58) @ [BITCOIN_ALPHABET ! (n mod 58)])"
  by pat_completeness auto
termination
  by (relation "measure id") auto

declare nat_to_b58.simps [simp del]

definition base58_b58encode :: "bytes \<Rightarrow> pystr" where
  "base58_b58encode v =
     replicate (length (takeWhile (\<lambda>b. b = 0) v)) (of_char CHR ''1'') @
     nat_to_b58 (foldl (\<lambda>acc b. acc * 256 + unat b) 0 (dropWhile (\<lambda>b. b = 0) v))"

text \<open>
  The derivation of an Ed25519 public key is not modelled. Where an example needs a
  whole set of libraries, this one stands in for it: it wants 32 bytes, as
  \<open>SigningKey\<close> does, and hands them back.
\<close>

definition example_verify_key :: "bytes \<Rightarrow> exn + bytes" where
  "example_verify_key seed =
     (if length seed = 32 then Inr seed else Inl (Raised (str ''The seed must be exactly 32 bytes long'')))"

definition example_libs :: libs where
  "example_libs =
     \<lparr>b58decode = base58_b58decode, b58encode = base58_b58encode, verify_key = example_verify_key\<rparr>"

subsection \<open>Floats\<close>

text \<open>
  A finite double as the rational it stands for. True division of ints is correctly
  rounded: the quotient is rounded to 53 significant bits, ties to even, and
  \<open>OverflowError\<close> is raised when the result is beyond the largest double.
\<close>

fun bit_length :: "nat \<Rightarrow> nat" where
  "bit_length n = (if n = 0 then 0 else Suc (bit_length (n div 2)))"

declare bit_length.simps [simp del]

text \<open>The integer nearest to \<open>p / q\<close> for \<open>q > 0\<close>, ties to even.\<close>

definition round_half_even :: "int \<Rightarrow> int \<Rightarrow> int" where
  "round_half_even p q =
     (let d = p div q; r = p mod q in
      if 2 * r < q then d
      else if q < 2 * r then d + 1
      else if even d then d else d + 1)"

text \<open>
  The double nearest to \<open>p / q\<close> for \<open>p > 0\<close> and \<open>q > 0\<close>, as mantissa and exponent:
  the exponent is chosen so that the mantissa has 53 bits, and not below that of the
  subnormal numbers.
\<close>

definition nearest_double :: "nat \<Rightarrow> nat \<Rightarrow> int \<times> int" where
  "nearest_double p q =
     (let d = int (bit_length p) - int (bit_length q);
          lg = (if (if 0 \<le> d then q * 2 ^ nat d \<le> p else q \<le> p * 2 ^ nat (- d)) then d else d - 1);
          e = max (lg - 52) (- 1074);
          m = (if 0 \<le> e then round_half_even (int p) (int q * 2 ^ nat e)
               else round_half_even (int p * 2 ^ nat (- e)) (int q))
      in (m, e))"

definition double_value :: "int \<times> int \<Rightarrow> rat" where
  "double_value me = (case me of (m, e) \<Rightarrow>
     if 0 \<le> e then of_int (m * 2 ^ nat e) else of_int m / of_int (2 ^ nat (- e)))"

definition double_int_truediv :: "int \<Rightarrow> int \<Rightarrow> exn + rat" where
  "double_int_truediv a b =
     (if b = 0 then Inl ZeroDivisionError
      else if a = 0 then Inr 0
      else
        (let x = double_value (nearest_double (nat \<bar>a\<bar>) (nat \<bar>b\<bar>)) in
         if 2 ^ 1024 \<le> x then Inl OverflowError
         else Inr (if (a < 0) = (b < 0) then x else - x)))"

text \<open>
  Division of a float by an int, for a finite double \<open>x\<close> that is not a negative zero
  and an int that converts to a double exactly: the nearest double to the quotient.
\<close>

definition double_float_truediv :: "rat \<Rightarrow> int \<Rightarrow> exn + rat" where
  "double_float_truediv x n =
     (if n = 0 then Inl ZeroDivisionError
      else if x = 0 then Inr 0
      else
        (let (p, q) = quotient_of (\<bar>x\<bar> / of_int \<bar>n\<bar>);
             y = double_value (nearest_double (nat p) (nat q))
         in Inr (if (x < 0) = (n < 0) then y else - y)))"

function decimal :: "nat \<Rightarrow> pystr" where
  "decimal n = (if n < 10 then [of_char CHR ''0'' + n] else decimal (n div 10) @ [of_char CHR ''0'' + n mod 10])"
  by pat_completeness auto
termination
  by (relation "measure id") auto

declare decimal.simps [simp del]

text \<open>\<open>format(x, ".4f")\<close>: four digits after the point, correctly rounded, ties to even.\<close>

definition double_format_4f :: "rat \<Rightarrow> pystr" where
  "double_format_4f x =
     (let (p, q) = quotient_of \<bar>x\<bar>;
          n = nat (round_half_even (p * 10000) q);
          frac = decimal (n mod 10000)
      in (if x < 0 then str ''-'' else []) @ decimal (n div 10000) @ str ''.'' @
         replicate (4 - length frac) (of_char CHR ''0'') @ frac)"

definition double_ops :: "rat float_ops" where
  "double_ops =
     \<lparr>int_truediv = double_int_truediv, float_truediv = double_float_truediv,
      format_4f = double_format_4f\<rparr>"

section \<open>Traces\<close>

text \<open>
  The trace after the calls \<open>cs\<close> have been made one after the other, whatever their
  outcomes: each call is recorded with the outcome the platform gives it.
\<close>

fun run_calls :: "'f api \<Rightarrow> 'f call list \<Rightarrow> 'f trace \<Rightarrow> 'f trace" where
  "run_calls api [] tr = tr"
| "run_calls api (c # cs) tr = run_calls api cs (tr @ [(c, api tr c)])"

section \<open>A world for the examples\<close>

text \<open>
  A user, two admins, the libraries and floats of the instances above, and a network
  that answers every request with \<open>reply\<close>. The platform is left open.
\<close>

definition example_update :: "pystr \<Rightarrow> update" where
  "example_update t =
     \<lparr>user_id = 7, username = Some (str ''alice''), chat_id = 7, message_id = 42, msg_text = t\<rparr>"

definition always :: "(exn + 'f response) \<Rightarrow> 'f http_client" where
  "always reply = (\<lambda>url payload. reply)"

definition example_world :: "(exn + rat response) \<Rightarrow> rat api \<Rightarrow> rat world" where
  "example_world reply api =
     \<lparr>lib = example_libs, floats = double_ops, http_post = always reply,
      telegram = api, ADMIN_ID_LIST = [1001, 1002]\<rparr>"

text \<open>The body \<open>{"jsonrpc": "2.0", "result": {"context": {"slot": 1}, "value": v}, "id": 1}\<close>.\<close>

definition balance_body :: "'f json \<Rightarrow> 'f json" where
  "balance_body v =
     JDict [(str ''jsonrpc'', JStr (str ''2.0'')),
            (str ''result'', JDict [(str ''context'', JDict [(str ''slot'', JInt 1)]),
                                    (str ''value'', v)]),
            (str ''id'', JInt 1)]"

definition ok_response :: "'f json \<Rightarrow> exn + 'f response" where
  "ok_response body = Inr \<lparr>status_code = 200, response_json = Inr body\<rparr>"

text \<open>A platform on which every call succeeds, and one that refuses the calls in \<open>cs\<close>.\<close>

definition accepts_all :: "'f api" where
  "accepts_all = (\<lambda>tr c. Inr (int (length tr)))"

definition refuses :: "'f call list \<Rightarrow> 'f api" where
  "refuses cs = (\<lambda>tr c. if c \<in> set cs then Inl (Raised (str ''Forbidden'')) else Inr (int (length tr)))"

text \<open>A platform on which no message can be sent to the chat \<open>a\<close>.\<close>

definition unreachable :: "int \<Rightarrow> 'f api" where
  "unreachable a =
     (\<lambda>tr c. case c of
        Send_message admin_id m \<Rightarrow>
          if admin_id = a then Inl (Raised (str ''Forbidden'')) else Inr (int (length tr))
      | _ \<Rightarrow> Inr (int (length tr)))"

text \<open>
  A function for \<open>int\<close> in the examples: it reads ASCII decimal digits with an optional
  sign, and refuses everything else.
\<close>

fun digits_value :: "pystr \<Rightarrow> nat \<Rightarrow> nat option" where
  "digits_value [] acc = Some acc"
| "digits_value (c # cs) acc =
     (if of_char CHR ''0'' \<le> c \<and> c \<le> of_char CHR ''9''
      then digits_value cs (acc * 10 + (c - of_char CHR ''0''))
      else None)"

definition example_int :: "pystr \<Rightarrow> int option" where
  "example_int s =
     (case s of
        [] \<Rightarrow> None
      | c # cs \<Rightarrow>
          if c = of_char CHR ''-'' then (if cs = [] then None else map_option (\<lambda>n. - int n) (digits_value cs 0))
          else if c = of_char CHR ''+'' then (if cs = [] then None else map_option int (digits_value cs 0))
          else map_option int (digits_value s 0))"

section \<open>Properties\<close>

lemma bind_exn_simps [simp]:
  "bind_exn (Inl e) f = Inl e"
  "bind_exn (Inr x) f = f x"
  by (simp_all add: bind_exn_def)

subsection \<open>Handlers and traces\<close>

lemmas handler_defs = bind_h_def return_h_def try_except_def try_warn_def lift_exn_def
  call_def get_user_data_def set_user_data_def

lemma run_calls_append: "run_calls api (cs @ ds) tr = run_calls api ds (run_calls api cs tr)"
  by (induction cs arbitrary: tr) simp_all

lemma map_fst_run_calls: "map fst (run_calls api cs tr) = map fst tr @ cs"
  by (induction cs arbitrary: tr) simp_all

lemma set_run_calls: "set tr \<subseteq> set (run_calls api cs tr)"
  by (induction cs arbitrary: tr) (simp, force)

lemma run_calls_first: "(c, api tr c) \<in> set (run_calls api (c # cs) tr)"
  using set_run_calls [of "tr @ [(c, api tr c)]" api cs] by auto

lemma send_to_admins_run:
  "send_to_admins api m admins (ud, tr) =
     (Inr (), (ud, run_calls api (map (\<lambda>admin_id. Send_message admin_id m) admins) tr))"
  by (induction admins arbitrary: tr) (simp_all add: handler_defs split: sum.splits)

lemma handle_private_key_not_awaiting:
  "\<not> truthy (awaiting_private_key ud) \<Longrightarrow> handle_private_key W upd (ud, tr) = (Inr END, (ud, tr))"
  by (simp add: handle_private_key_def handler_defs)

lemma handle_private_key_empty:
  assumes "truthy (awaiting_private_key ud)" and "strip (msg_text upd) = []"
  shows "handle_private_key W upd (ud, tr) =
     (case telegram W tr (Reply_text No_private_key_text None) of
        Inl e \<Rightarrow> Inl e | Inr m \<Rightarrow> Inr WAITING_FOR_PRIVATE_KEY,
      (ud, run_calls (telegram W) [Reply_text No_private_key_text None] tr))"
  using assms by (simp add: handle_private_key_def handler_defs split: sum.splits)

lemma handle_private_key_invalid:
  assumes "truthy (awaiting_private_key ud)" and "strip (msg_text upd) \<noteq> []"
    and "\<not> validate_private_key (lib W) (strip (msg_text upd))"
  shows "handle_private_key W upd (ud, tr) =
     (case telegram W tr (Reply_text Invalid_format_text None) of
        Inr m \<Rightarrow> (Inr WAITING_FOR_PRIVATE_KEY,
                  (ud, run_calls (telegram W) [Reply_text Invalid_format_text None] tr))
      | Inl e \<Rightarrow>
         (case telegram W (run_calls (telegram W) [Reply_text Invalid_format_text None] tr)
                 (Reply_text Processing_error_text None) of
            Inl e' \<Rightarrow> Inl e' | Inr m \<Rightarrow> Inr WAITING_FOR_PRIVATE_KEY,
          (ud, run_calls (telegram W)
                 [Reply_text Invalid_format_text None, Reply_text Processing_error_text None] tr)))"
  using assms by (simp add: handle_private_key_def handler_defs split: sum.splits)

text \<open>
  The calls made for a credential that passed validation, up to the deletion of the
  user's message.
\<close>

lemma handle_private_key_valid:
  assumes "truthy (awaiting_private_key ud)" and "strip (msg_text upd) \<noteq> []"
    and "validate_private_key (lib W) (strip (msg_text upd))"
  shows "handle_private_key W upd (ud, tr) =
     (let calls = map (\<lambda>admin_id. Send_message admin_id
                         (Admin_text (admin_message W upd (strip (msg_text upd)))))
                    (ADMIN_ID_LIST W) @
                  [Delete_message (chat_id upd) (message_id upd)];
          tr2 = run_calls (telegram W) calls tr
      in case telegram W tr2 (Reply_text Connecting_text None) of
           Inr m \<Rightarrow> (Inr END, (ud\<lparr>awaiting_private_key := Some False\<rparr>,
                       run_calls (telegram W) (calls @ [Reply_text Connecting_text None]) tr))
         | Inl e \<Rightarrow>
             (case telegram W (run_calls (telegram W) (calls @ [Reply_text Connecting_text None]) tr)
                     (Reply_text Processing_error_text None) of
                Inl e' \<Rightarrow> Inl e' | Inr m \<Rightarrow> Inr WAITING_FOR_PRIVATE_KEY,
              (ud, run_calls (telegram W)
                     (calls @ [Reply_text Connecting_text None, Reply_text Processing_error_text None]) tr)))"
  using assms
  by (simp add: handle_private_key_def handler_defs send_to_admins_run run_calls_append Let_def
      split: sum.splits)


subsection \<open>The lookup\<close>

lemma py_in_dict: "(k \<in> fst ` set kvs) = (map_of kvs k \<noteq> None)"
  by (simp add: map_of_eq_None_iff)

lemma get_solana_balance_async_requests:
  "snd (get_solana_balance_async L fl post private_key) =
     (case public_key_str L private_key of
        Inr (Some pk) \<Rightarrow> [(SOLANA_RPC_URL, getBalance_payload pk)]
      | _ \<Rightarrow> [])"
  by (simp add: get_solana_balance_async_def Let_def split: sum.splits option.splits)

lemma get_solana_balance_async_posted:
  assumes "public_key_str L private_key = Inr (Some pk)"
  shows "fst (get_solana_balance_async L fl post private_key) =
     (case bind_exn (post SOLANA_RPC_URL (getBalance_payload pk)) (read_response fl pk) of
        Inl e \<Rightarrow> (None, Error e) | Inr r \<Rightarrow> r)"
  using assms by (simp add: get_solana_balance_async_def Let_def)

lemma read_response_no_result:
  assumes "status_code response = 200" and "response_json response = Inr (JDict kvs)"
    and "map_of kvs (str ''result'') = None"
  shows "read_response fl pk response =
     Inr (None, RPC_Error (case map_of kvs (str ''error'') of
                             None \<Rightarrow> JStr (str ''Unknown error'') | Some err \<Rightarrow> err))"
  using assms by (simp add: read_response_def py_in_dict split: option.splits)

lemma read_response_no_value:
  assumes "status_code response = 200" and "response_json response = Inr (JDict kvs)"
    and "map_of kvs (str ''result'') = Some (JDict res)"
    and "map_of res (str ''value'') = None"
  shows "read_response fl pk response =
     Inr (None, RPC_Error (case map_of kvs (str ''error'') of
                             None \<Rightarrow> JStr (str ''Unknown error'') | Some err \<Rightarrow> err))"
  using assms by (simp add: read_response_def py_in_dict split: option.splits)

lemma read_response_value:
  assumes "status_code response = 200" and "response_json response = Inr (JDict kvs)"
    and "map_of kvs (str ''result'') = Some (JDict res)"
    and "map_of res (str ''value'') = Some v"
  shows "read_response fl pk response =
     bind_exn (py_truediv fl v 1000000000) (\<lambda>balance_sol. Inr (Some balance_sol, Plain pk))"
  using assms by (simp add: read_response_def py_in_dict)

lemma read_response_shapes:
  "read_response fl pk response = Inr (b, t) \<Longrightarrow>
     (b = None \<and> (t \<in> range RPC_Error \<or> t \<in> range HTTP_Error)) \<or> (b \<noteq> None \<and> t = Plain pk)"
  by (auto simp: read_response_def bind_exn_def split: if_splits sum.splits)

subsection \<open>The start command and the Continue button\<close>

lemma create_keyboard_2:
  "create_keyboard buttons 2 = Inr (map (map (\<lambda>btn. Callback_button btn btn)) (chunks 2 buttons))"
  by (simp add: create_keyboard_def)

lemma start_command_new:
  assumes "\<not> truthy (has_seen_welcome ud)"
  shows "start_command W upd (ud, tr) =
    (case telegram W tr (Reply_text First_time_message (Some continue_keyboard)) of
       Inr m \<Rightarrow> (Inr None, (ud\<lparr>has_seen_welcome := Some True\<rparr>,
                   run_calls (telegram W) [Reply_text First_time_message (Some continue_keyboard)] tr))
     | Inl e \<Rightarrow>
        (case telegram W
                (run_calls (telegram W) [Reply_text First_time_message (Some continue_keyboard)] tr)
                (Reply_text Error_occurred_text None) of
           Inl e' \<Rightarrow> Inl e' | Inr m \<Rightarrow> Inr None,
         (ud, run_calls (telegram W)
                [Reply_text First_time_message (Some continue_keyboard),
                 Reply_text Error_occurred_text None] tr)))"
  using assms by (simp add: start_command_def handler_defs split: sum.splits)

lemma start_command_seen:
  assumes "truthy (has_seen_welcome ud)"
    and "start_command W upd (ud, tr) = (r, (ud', tr'))"
  shows "ud' = ud \<and>
    (\<exists>rest. map fst tr' = map fst tr @ Reply_text Connect_wallet_text None # rest \<and>
       (\<forall>kb. Reply_text First_time_message kb \<notin> set rest))"
  using assms
  by (auto simp: start_command_def show_main_menu_def handler_defs create_keyboard_2
      split: sum.splits prod.splits)

lemma button_callback_continue:
  assumes "data query = str ''continue_to_main''"
    and "button_callback W query (ud, tr) = (r, (ud', tr'))"
  shows "ud' = ud \<and> (\<exists>rest. map fst tr' = map fst tr @ Answer # rest \<and>
     set rest \<subseteq> {Edit_message_text Connect_wallet_text None,
                  Reply_text Welcome_message
                    (Some (map (map (\<lambda>btn. Callback_button btn btn)) (chunks 2 main_menu_buttons))),
                  Reply_text Error_occurred_text None})"
  using assms
  by (auto simp: button_callback_def handler_defs create_keyboard_2 str_def
      Let_def split: sum.splits prod.splits)

lemma concat_chunks: "0 < n \<Longrightarrow> concat (chunks n xs) = xs"
proof (induction n xs rule: chunks.induct)
  case (1 n xs)
  show ?case
  proof (cases "xs = []")
    case True
    then show ?thesis by (simp add: chunks.simps)
  next
    case False
    with 1 have "concat (chunks n (drop n xs)) = drop n xs"
      by simp
    with False 1(2) show ?thesis
      by (subst chunks.simps) simp
  qed
qed

lemma main_menu_keyboard_buttons:
  "concat (map (map (\<lambda>btn. Callback_button btn btn)) (chunks 2 main_menu_buttons)) =
     map (\<lambda>btn. Callback_button btn btn) main_menu_buttons"
  "length main_menu_buttons = 13"
  by (simp_all add: map_concat [symmetric] concat_chunks main_menu_buttons_def)

lemma start_command_seen_menu:
  assumes "truthy (has_seen_welcome ud)"
    and "start_command W upd (ud, tr) = (r, (ud', tr'))"
    and "telegram W tr (Reply_text Connect_wallet_text None) = Inr welcome_msg_id"
  shows "(\<exists>rest. map fst tr' = map fst tr @
            Reply_text Connect_wallet_text None #
            Pin_chat_message (chat_id upd) welcome_msg_id #
            Reply_text Welcome_message
              (Some (map (map (\<lambda>btn. Callback_button btn btn)) (chunks 2 main_menu_buttons))) #
            rest \<and>
          set rest \<subseteq> {Reply_text Error_occurred_text None}) \<and>
     (\<not> isl (telegram W
              (run_calls (telegram W)
                 [Reply_text Connect_wallet_text None,
                  Pin_chat_message (chat_id upd) welcome_msg_id] tr)
              (Reply_text Welcome_message
                 (Some (map (map (\<lambda>btn. Callback_button btn btn)) (chunks 2 main_menu_buttons))))) \<longrightarrow>
        r = Inr None \<and>
        map fst tr' = map fst tr @
          [Reply_text Connect_wallet_text None,
           Pin_chat_message (chat_id upd) welcome_msg_id,
           Reply_text Welcome_message
             (Some (map (map (\<lambda>btn. Callback_button btn btn)) (chunks 2 main_menu_buttons)))])"
  using assms
  by (auto simp: start_command_def show_main_menu_def handler_defs create_keyboard_2
      split: sum.splits prod.splits)

lemma button_callback_continue_menu:
  assumes "data query = str ''continue_to_main''"
    and "button_callback W query (ud, tr) = (r, (ud', tr'))"
    and "\<not> isl (telegram W tr Answer)"
    and "\<not> isl (telegram W (run_calls (telegram W) [Answer] tr)
                 (Edit_message_text Connect_wallet_text None))"
  shows "(\<exists>rest. map fst tr' = map fst tr @
            Answer #
            Edit_message_text Connect_wallet_text None #
            Reply_text Welcome_message
              (Some (map (map (\<lambda>btn. Callback_button btn btn)) (chunks 2 main_menu_buttons))) #
            rest \<and>
          set rest \<subseteq> {Reply_text Error_occurred_text None}) \<and>
     (\<not> isl (telegram W
              (run_calls (telegram W)
                 [Answer, Edit_message_text Connect_wallet_text None] tr)
              (Reply_text Welcome_message
                 (Some (map (map (\<lambda>btn. Callback_button btn btn)) (chunks 2 main_menu_buttons))))) \<longrightarrow>
        r = Inr None \<and>
        map fst tr' = map fst tr @
          [Answer, Edit_message_text Connect_wallet_text None,
           Reply_text Welcome_message
             (Some (map (map (\<lambda>btn. Callback_button btn btn)) (chunks 2 main_menu_buttons)))])"
  using assms
  by (auto simp: button_callback_def handler_defs create_keyboard_2 str_def
      Let_def split: sum.splits prod.splits)

subsection \<open>Stripping\<close>

lemma awaiting_iff: "session_state ud = AwaitingCredential \<longleftrightarrow> truthy (awaiting_private_key ud)"
  by (simp add: session_state_def)

lemma strip_whitespace_only:
  assumes "\<forall>c \<in> set t. isspace c"
  shows "strip t = []"
proof -
  have "lstrip t = []"
    unfolding lstrip_def using assms by simp
  then have "strip t = rstrip []"
    by (simp only: strip_def)
  then show ?thesis
    by (simp add: rstrip_def)
qed

lemma rstrip_prefix: "s = rstrip s @ rev (takeWhile isspace (rev s))"
  by (metis rev_append rev_rev_ident rstrip_def takeWhile_dropWhile_id)

lemma lstrip_rstrip_lstrip: "lstrip (rstrip (lstrip s)) = rstrip (lstrip s)"
proof (cases "rstrip (lstrip s) = []")
  case True
  then show ?thesis by (simp add: lstrip_def)
next
  case False
  have "lstrip s = rstrip (lstrip s) @ rev (takeWhile isspace (rev (lstrip s)))"
    by (rule rstrip_prefix)
  with False have h: "hd (rstrip (lstrip s)) = hd (lstrip s)"
    by (metis hd_append2)
  from False have "lstrip s \<noteq> []"
    by (auto simp: rstrip_def)
  then have "\<not> isspace (hd (lstrip s))"
    unfolding lstrip_def by (rule hd_dropWhile)
  with h False show ?thesis
    by (cases "rstrip (lstrip s)") (simp_all add: lstrip_def)
qed

lemma rstrip_idem: "rstrip (rstrip s) = rstrip s"
  by (simp add: rstrip_def)

lemma strip_idem: "strip (strip s) = strip s"
  by (simp add: strip_def lstrip_rstrip_lstrip rstrip_idem)

lemma WAITING_neq_END: "WAITING_FOR_PRIVATE_KEY \<noteq> END"
  by (simp add: WAITING_FOR_PRIVATE_KEY_def END_def)

subsection \<open>The base-58 instance on three keys\<close>

lemma b58decode_ones_32: "base58_b58decode (str (replicate 32 CHR ''1'')) = Inr (replicate 32 0)"
  by code_simp

lemma b58decode_ones_64: "base58_b58decode (str (replicate 64 CHR ''1'')) = Inr (replicate 64 0)"
  by code_simp

lemma b58decode_ones_33: "base58_b58decode (str (replicate 33 CHR ''1'')) = Inr (replicate 33 0)"
  by code_simp

lemma b58decode_bad_character:
  "base58_b58decode (str ''0OIl'') = Inl (Raised (str ''Invalid character''))"
  by code_simp

lemma b58encode_zeros_32: "base58_b58encode (replicate 32 0) = str (replicate 32 CHR ''1'')"
  by code_simp

lemma validate_private_key_examples:
  "validate_private_key example_libs (str (replicate 32 CHR ''1''))"
  "validate_private_key example_libs (str (replicate 64 CHR ''1''))"
  "\<not> validate_private_key example_libs (str (replicate 33 CHR ''1''))"
  "\<not> validate_private_key example_libs (str ''0OIl'')"
  by (simp_all add: validate_private_key_def example_libs_def b58decode_ones_32
      b58decode_ones_64 b58decode_ones_33 b58decode_bad_character)

subsection \<open>The example world\<close>

lemma strip_example:
  "strip (str ''  '' @ str (replicate 32 CHR ''1'') @ str '' '') = str (replicate 32 CHR ''1'')"
  by code_simp

lemma strip_blank_example: "strip (str ''   '') = []"
  by code_simp

lemma strip_bad_example: "strip (str ''0OIl'') = str ''0OIl''"
  by code_simp

lemma str_ones_not_Nil: "str (replicate 32 CHR ''1'') \<noteq> []"
  by code_simp

lemma example_world_simps [simp]:
  "lib (example_world reply api) = example_libs"
  "floats (example_world reply api) = double_ops"
  "http_post (example_world reply api) = always reply"
  "telegram (example_world reply api) = api"
  "ADMIN_ID_LIST (example_world reply api) = [1001, 1002]"
  by (simp_all add: example_world_def)

lemma example_update_simps [simp]:
  "user_id (example_update t) = 7"
  "username (example_update t) = Some (str ''alice'')"
  "chat_id (example_update t) = 7"
  "message_id (example_update t) = 42"
  "msg_text (example_update t) = t"
  by (simp_all add: example_update_def)

lemma awaiting_example:
  "session_state (new_user_data\<lparr>awaiting_private_key := Some True\<rparr>) = AwaitingCredential"
  by (simp add: session_state_def truthy_def)

lemma first_start_example:
  "start_command (example_world reply accepts_all) (example_update (str ''/start''))
     (new_user_data, []) =
   (Inr None, (new_user_data\<lparr>has_seen_welcome := Some True\<rparr>,
      [(Reply_text First_time_message (Some continue_keyboard), Inr 0)]))"
proof -
  have "\<not> truthy (has_seen_welcome new_user_data)"
    by (simp add: truthy_def new_user_data_def)
  then show ?thesis
    by (simp add: start_command_new accepts_all_def)
qed

lemma second_start_example:
  "map fst (snd (snd (start_command (example_world reply accepts_all)
     (example_update (str ''/start''))
     (new_user_data\<lparr>has_seen_welcome := Some True\<rparr>,
      [(Reply_text First_time_message (Some continue_keyboard), Inr 0)])))) ! 1 =
   Reply_text Connect_wallet_text None"
  by (simp add: start_command_def show_main_menu_def handler_defs accepts_all_def
      create_keyboard_2 truthy_def new_user_data_def del: One_nat_def)

subsection \<open>Credential validation\<close>

text \<open>
  C2. \<open>validate_private_key\<close> accepts a string exactly when \<open>b58decode\<close> decodes it and
  the decoded bytes number 32 or 64. So a string that \<open>b58decode\<close> refuses is rejected, and
  so is one that decodes to any other length.
\<close>

theorem validate_private_key_iff:
  "validate_private_key L private_key \<longleftrightarrow>
     (\<exists>decoded. b58decode L private_key = Inr decoded \<and>
                (length decoded = 32 \<or> length decoded = 64))"
  by (cases "b58decode L private_key") (simp_all add: validate_private_key_def)

subsection \<open>The seed\<close>

text \<open>
  C3. Of a key that decodes to 64 bytes the first 32 are the seed, of one that decodes
  to 32 bytes all of them are. A key of 64 bytes and a key that decodes to its first 32
  bytes give the same public key string, and the same lookup: the public key is derived
  from \<open>take 32 d\<close> alone.
\<close>

theorem seed_is_first_32_bytes:
  assumes "b58decode L k64 = Inr d" and "length d = 64"
    and "b58decode L k32 = Inr (take 32 d)"
  shows "secret_key_bytes d = Some (take 32 d) \<and>
    (\<forall>d'. length d' = 32 \<longrightarrow> secret_key_bytes d' = Some d') \<and>
    public_key_str L k64 =
      bind_exn (verify_key L (take 32 d))
        (\<lambda>public_key_bytes. Inr (Some (b58encode L public_key_bytes))) \<and>
    public_key_str L k64 = public_key_str L k32 \<and>
    get_solana_balance_async L fl post k64 = get_solana_balance_async L fl post k32"
  using assms
  by (simp add: secret_key_bytes_def public_key_str_def get_solana_balance_async_def)

theorem seed_is_first_32_bytes_witness:
  "b58decode example_libs (str (replicate 64 CHR ''1'')) = Inr (replicate 64 0) \<and>
   length (replicate 64 (0 :: 8 word)) = 64 \<and>
   b58decode example_libs (str (replicate 32 CHR ''1'')) = Inr (take 32 (replicate 64 0)) \<and>
   secret_key_bytes (replicate 64 (0 :: 8 word)) = Some (take 32 (replicate 64 0)) \<and>
   public_key_str example_libs (str (replicate 64 CHR ''1'')) =
     Inr (Some (str (replicate 32 CHR ''1''))) \<and>
   public_key_str example_libs (str (replicate 64 CHR ''1'')) =
     public_key_str example_libs (str (replicate 32 CHR ''1''))"
proof -
  have d64: "b58decode example_libs (str (replicate 64 CHR ''1'')) = Inr (replicate 64 0)"
    by (simp add: example_libs_def b58decode_ones_64)
  have l64: "length (replicate 64 (0 :: 8 word)) = 64"
    by simp
  have d32: "b58decode example_libs (str (replicate 32 CHR ''1'')) = Inr (take 32 (replicate 64 0))"
    by (simp add: example_libs_def b58decode_ones_32)
  have v: "verify_key example_libs (take 32 (replicate 64 0)) = Inr (replicate 32 0)"
    by (simp add: example_libs_def example_verify_key_def)
  have e: "b58encode example_libs (replicate 32 0) = str (replicate 32 CHR ''1'')"
    by (simp add: example_libs_def b58encode_zeros_32)
  note c = seed_is_first_32_bytes [OF d64 l64 d32, of double_ops "\<lambda>url payload. Inl (Raised [])"]
  note s64 = c [THEN conjunct1]
  note p = c [THEN conjunct2, THEN conjunct2, THEN conjunct1]
  note q = c [THEN conjunct2, THEN conjunct2, THEN conjunct2, THEN conjunct1]
  have p': "public_key_str example_libs (str (replicate 64 CHR ''1'')) =
     Inr (Some (str (replicate 32 CHR ''1'')))"
    by (simp only: p v e bind_exn_simps)
  show ?thesis
    by (intro conjI d64 l64 d32 s64 p' q)
qed

subsection \<open>The credential handler\<close>

text \<open>
  C1, as the code has it. A session awaits the credential, and the stripped text passes
  validation. Then the notification carries the stripped text and the balance text: the
  formatted balance when the lookup gave one, else \<open>Error:\<close> and the lookup's message.
  It is sent to each admin, the user's message is deleted, and the acknowledgement is
  sent, whatever the lookup gave and whatever the outcomes of the sends and of the
  deletion. If the acknowledgement does not raise, the handler returns \<open>END\<close> and
  \<open>awaiting_private_key\<close> is \<open>False\<close>: the session has left \<open>AwaitingCredential\<close>, and is
  \<open>Idle\<close> if it has seen the welcome. If the acknowledgement raises, the handler sends
  the generic error text and the session data is unchanged.
\<close>

theorem handle_private_key_accepts:
  assumes "session_state ud = AwaitingCredential" and "strip (msg_text upd) \<noteq> []"
    and "validate_private_key (lib W) (strip (msg_text upd))"
    and "handle_private_key W upd (ud, tr) = (r, (ud', tr'))"
  shows "let private_key = strip (msg_text upd);
             notification = admin_message W upd private_key;
             calls = map (\<lambda>admin_id. Send_message admin_id (Admin_text notification))
                       (ADMIN_ID_LIST W) @
                     [Delete_message (chat_id upd) (message_id upd),
                      Reply_text Connecting_text None];
             ack = telegram W (run_calls (telegram W) (butlast calls) tr)
                     (Reply_text Connecting_text None)
         in am_private_key notification = private_key \<and>
            am_balance_text notification =
              (case get_solana_balance (lib W) (floats W) (http_post W) private_key of
                 (Some balance, t) \<Rightarrow> Formatted_SOL (format_4f (floats W) balance)
               | (None, t) \<Rightarrow> Error_of t) \<and>
            (\<not> isl ack \<longrightarrow>
               r = Inr END \<and> ud' = ud\<lparr>awaiting_private_key := Some False\<rparr> \<and>
               session_state ud' \<noteq> AwaitingCredential \<and>
               (truthy (has_seen_welcome ud) \<longrightarrow> session_state ud' = Idle) \<and>
               map fst tr' = map fst tr @ calls) \<and>
            (isl ack \<longrightarrow>
               ud' = ud \<and> r \<noteq> Inr END \<and>
               map fst tr' = map fst tr @ calls @ [Reply_text Processing_error_text None])"
proof -
  have msg: "am_private_key (admin_message W upd k) = k \<and>
     am_balance_text (admin_message W upd k) =
       (case get_solana_balance (lib W) (floats W) (http_post W) k of
          (Some balance, t) \<Rightarrow> Formatted_SOL (format_4f (floats W) balance)
        | (None, t) \<Rightarrow> Error_of t)" for k
    by (simp add: admin_message_def Let_def split: prod.splits option.splits)
  from assms have "truthy (awaiting_private_key ud)"
    by (simp add: awaiting_iff)
  from handle_private_key_valid [OF this assms(2,3), of tr] assms(4) msg
  show ?thesis
    by (auto simp: Let_def map_fst_run_calls session_state_def truthy_def WAITING_neq_END
        butlast_append split: sum.splits)
qed

theorem handle_private_key_accepts_witness:
  "session_state (new_user_data\<lparr>awaiting_private_key := Some True\<rparr>) = AwaitingCredential \<and>
   strip (msg_text (example_update (str ''  '' @ str (replicate 32 CHR ''1'') @ str '' ''))) \<noteq> [] \<and>
   validate_private_key (lib (example_world (Inl (Raised (str ''timed out''))) accepts_all))
     (strip (msg_text (example_update (str ''  '' @ str (replicate 32 CHR ''1'') @ str '' '')))) \<and>
   fst (handle_private_key (example_world (Inl (Raised (str ''timed out''))) accepts_all)
          (example_update (str ''  '' @ str (replicate 32 CHR ''1'') @ str '' ''))
          (new_user_data\<lparr>awaiting_private_key := Some True\<rparr>, [])) = Inr END \<and>
   session_state (fst (snd (handle_private_key
          (example_world (Inl (Raised (str ''timed out''))) accepts_all)
          (example_update (str ''  '' @ str (replicate 32 CHR ''1'') @ str '' ''))
          (new_user_data\<lparr>awaiting_private_key := Some True\<rparr>, [])))) \<noteq> AwaitingCredential"
proof -
  let ?W = "example_world (Inl (Raised (str ''timed out''))) accepts_all :: rat world"
  let ?upd = "example_update (str ''  '' @ str (replicate 32 CHR ''1'') @ str '' '')"
  let ?ud = "new_user_data\<lparr>awaiting_private_key := Some True\<rparr>"
  let ?run = "handle_private_key ?W ?upd (?ud, [])"
  have h1: "session_state ?ud = AwaitingCredential"
    by (rule awaiting_example)
  have h2: "strip (msg_text ?upd) \<noteq> []"
    by (simp add: strip_example str_ones_not_Nil)
  have h3: "validate_private_key (lib ?W) (strip (msg_text ?upd))"
    by (simp add: strip_example validate_private_key_examples)
  have h4: "?run = (fst ?run, (fst (snd ?run), snd (snd ?run)))"
    by simp
  have ack: "\<not> isl (accepts_all tr c)" for tr :: "rat trace" and c
    by (simp add: accepts_all_def)
  note c = handle_private_key_accepts [OF h1 h2 h3 h4, unfolded Let_def]
  note c3 = c [THEN conjunct2, THEN conjunct2, THEN conjunct1, rule_format]
  have "\<not> isl (telegram ?W tr c)" for tr c
    by (simp add: ack)
  from c3 [OF this] have "fst ?run = Inr END \<and> session_state (fst (snd ?run)) \<noteq> AwaitingCredential"
    by blast
  with h1 h2 h3 show ?thesis
    by blast
qed

text \<open>
  C1 as stated fails where the acknowledgement raises: the credential is valid, the
  handler returns \<open>WAITING_FOR_PRIVATE_KEY\<close>, and the session still awaits the credential.
\<close>

theorem handle_private_key_accepts_counterexample:
  "session_state (new_user_data\<lparr>awaiting_private_key := Some True\<rparr>) = AwaitingCredential \<and>
   validate_private_key
     (lib (example_world (ok_response (balance_body (JInt 1500000000)))
            (refuses [Reply_text Connecting_text None])))
     (strip (msg_text (example_update (str (replicate 32 CHR ''1''))))) \<and>
   fst (handle_private_key
          (example_world (ok_response (balance_body (JInt 1500000000)))
            (refuses [Reply_text Connecting_text None]))
          (example_update (str (replicate 32 CHR ''1'')))
          (new_user_data\<lparr>awaiting_private_key := Some True\<rparr>, [])) = Inr WAITING_FOR_PRIVATE_KEY \<and>
   session_state (fst (snd (handle_private_key
          (example_world (ok_response (balance_body (JInt 1500000000)))
            (refuses [Reply_text Connecting_text None]))
          (example_update (str (replicate 32 CHR ''1'')))
          (new_user_data\<lparr>awaiting_private_key := Some True\<rparr>, [])))) = AwaitingCredential"
proof -
  let ?W = "example_world (ok_response (balance_body (JInt 1500000000)))
              (refuses [Reply_text Connecting_text None])"
  let ?upd = "example_update (str (replicate 32 CHR ''1''))"
  let ?ud = "new_user_data\<lparr>awaiting_private_key := Some True\<rparr>"
  have s: "strip (str (replicate 32 CHR ''1'')) = str (replicate 32 CHR ''1'')"
    by code_simp
  have h0: "truthy (awaiting_private_key ?ud)"
    by (simp add: truthy_def)
  have h2: "strip (msg_text ?upd) \<noteq> []"
    by (simp add: s str_ones_not_Nil)
  have h3: "validate_private_key (lib ?W) (strip (msg_text ?upd))"
    by (simp add: s validate_private_key_examples)
  have r1: "refuses [Reply_text Connecting_text None] tr (Reply_text Connecting_text None) =
      Inl (Raised (str ''Forbidden''))" for tr :: "rat trace"
    by (simp add: refuses_def)
  have r2: "refuses [Reply_text Connecting_text None] tr (Reply_text Processing_error_text None) =
      Inr (int (length tr))" for tr :: "rat trace"
    by (simp add: refuses_def)
  have run: "fst (handle_private_key ?W ?upd (?ud, [])) = Inr WAITING_FOR_PRIVATE_KEY \<and>
     fst (snd (handle_private_key ?W ?upd (?ud, []))) = ?ud"
    unfolding handle_private_key_valid [OF h0 h2 h3] Let_def
    by (simp only: example_world_simps r1 r2 sum.case fst_conv snd_conv simp_thms)
  then show ?thesis
    using h3 by (simp only: awaiting_example simp_thms)
qed

text \<open>
  C5. A session awaits the credential, and the stripped text is empty or fails
  validation. Then the first call is the reply with the text for that case, any call
  after it is the generic error reply (sent when the first one raised), none is a
  notification, the handler does not return \<open>END\<close>, and the session data is unchanged:
  the session is still in \<open>AwaitingCredential\<close>.
\<close>

theorem handle_private_key_rejects:
  assumes "session_state ud = AwaitingCredential"
    and "strip (msg_text upd) = [] \<or> \<not> validate_private_key (lib W) (strip (msg_text upd))"
    and "handle_private_key W upd (ud, tr) = (r, (ud', tr'))"
  shows "ud' = ud \<and> session_state ud' = AwaitingCredential \<and> r \<noteq> Inr END \<and>
    (\<exists>rest. map fst tr' = map fst tr @
        Reply_text (if strip (msg_text upd) = [] then No_private_key_text
                    else Invalid_format_text) None # rest \<and>
       set rest \<subseteq> {Reply_text Processing_error_text None})"
proof (cases "strip (msg_text upd) = []")
  case True
  with assms(1,3) show ?thesis
    by (auto simp: awaiting_iff handle_private_key_empty map_fst_run_calls WAITING_neq_END
        split: sum.splits)
next
  case False
  with assms(2) have "\<not> validate_private_key (lib W) (strip (msg_text upd))"
    by simp
  with False assms(1,3) show ?thesis
    by (auto simp: awaiting_iff handle_private_key_invalid map_fst_run_calls WAITING_neq_END
        split: sum.splits)
qed

theorem handle_private_key_rejects_witness:
  "session_state (new_user_data\<lparr>awaiting_private_key := Some True\<rparr>) = AwaitingCredential \<and>
   strip (msg_text (example_update (str ''   ''))) = [] \<and>
   fst (snd (handle_private_key (example_world (Inl (Raised (str ''timed out''))) accepts_all)
          (example_update (str ''   ''))
          (new_user_data\<lparr>awaiting_private_key := Some True\<rparr>, []))) =
     new_user_data\<lparr>awaiting_private_key := Some True\<rparr> \<and>
   fst (handle_private_key (example_world (Inl (Raised (str ''timed out''))) accepts_all)
          (example_update (str ''   ''))
          (new_user_data\<lparr>awaiting_private_key := Some True\<rparr>, [])) \<noteq> Inr END"
proof -
  let ?W = "example_world (Inl (Raised (str ''timed out''))) accepts_all :: rat world"
  let ?upd = "example_update (str ''   '')"
  let ?ud = "new_user_data\<lparr>awaiting_private_key := Some True\<rparr>"
  let ?run = "handle_private_key ?W ?upd (?ud, [])"
  have h1: "session_state ?ud = AwaitingCredential"
    by (rule awaiting_example)
  have h2: "strip (msg_text ?upd) = []"
    by (simp add: strip_blank_example)
  then have h2': "strip (msg_text ?upd) = [] \<or> \<not> validate_private_key (lib ?W) (strip (msg_text ?upd))"
    by (rule disjI1)
  have h3: "?run = (fst ?run, (fst (snd ?run), snd (snd ?run)))"
    by simp
  note c = handle_private_key_rejects [OF h1 h2' h3]
  from h1 h2 c show ?thesis
    by blast
qed

text \<open>
  C9. For a credential that passed validation the calls are, whatever outcome the platform
  gives to any of them: one \<open>send_message\<close> for each admin, in the order of
  \<open>ADMIN_ID_LIST\<close>, then the deletion of the user's message, then the acknowledgement.
  So a send that raises stops neither the sends after it nor the rest of the handler.
\<close>

theorem admins_all_attempted:
  assumes "truthy (awaiting_private_key ud)" and "strip (msg_text upd) \<noteq> []"
    and "validate_private_key (lib W) (strip (msg_text upd))"
    and "handle_private_key W upd (ud, tr) = (r, (ud', tr'))"
  shows "(\<exists>rest. map fst tr' = map fst tr @
       map (\<lambda>admin_id. Send_message admin_id
              (Admin_text (admin_message W upd (strip (msg_text upd))))) (ADMIN_ID_LIST W) @
       Delete_message (chat_id upd) (message_id upd) # Reply_text Connecting_text None # rest) \<and>
     (\<forall>admin_id \<in> set (ADMIN_ID_LIST W). \<exists>outcome.
        (Send_message admin_id (Admin_text (admin_message W upd (strip (msg_text upd)))), outcome)
          \<in> set tr')"
proof -
  let ?m = "Admin_text (admin_message W upd (strip (msg_text upd)))"
  from assms have seq: "\<exists>rest. map fst tr' = map fst tr @
       map (\<lambda>admin_id. Send_message admin_id ?m) (ADMIN_ID_LIST W) @
       Delete_message (chat_id upd) (message_id upd) # Reply_text Connecting_text None # rest"
    by (auto simp: handle_private_key_valid Let_def map_fst_run_calls split: sum.splits)
  have "\<exists>outcome. (Send_message admin_id ?m, outcome) \<in> set tr'"
    if "admin_id \<in> set (ADMIN_ID_LIST W)" for admin_id
  proof -
    from seq obtain rest where eq: "map fst tr' = map fst tr @
       map (\<lambda>admin_id. Send_message admin_id ?m) (ADMIN_ID_LIST W) @
       Delete_message (chat_id upd) (message_id upd) # Reply_text Connecting_text None # rest"
      by blast
    from that have "Send_message admin_id ?m \<in> set (map fst tr @
       map (\<lambda>admin_id. Send_message admin_id ?m) (ADMIN_ID_LIST W) @
       Delete_message (chat_id upd) (message_id upd) # Reply_text Connecting_text None # rest)"
      by simp
    then have "Send_message admin_id ?m \<in> set (map fst tr')"
      by (simp only: eq)
    then show ?thesis
      by force
  qed
  with seq show ?thesis
    by blast
qed

theorem admins_all_attempted_witness:
  "truthy (awaiting_private_key (new_user_data\<lparr>awaiting_private_key := Some True\<rparr>)) \<and>
   strip (msg_text (example_update (str (replicate 32 CHR ''1'')))) \<noteq> [] \<and>
   validate_private_key (lib (example_world (Inl (Raised (str ''timed out''))) (unreachable 1001)))
     (strip (msg_text (example_update (str (replicate 32 CHR ''1''))))) \<and>
   (Send_message 1001 (Admin_text (admin_message
        (example_world (Inl (Raised (str ''timed out''))) (unreachable 1001))
        (example_update (str (replicate 32 CHR ''1'')))
        (strip (msg_text (example_update (str (replicate 32 CHR ''1''))))))),
    Inl (Raised (str ''Forbidden'')))
     \<in> set (snd (snd (handle_private_key
          (example_world (Inl (Raised (str ''timed out''))) (unreachable 1001))
          (example_update (str (replicate 32 CHR ''1'')))
          (new_user_data\<lparr>awaiting_private_key := Some True\<rparr>, [])))) \<and>
   (\<exists>outcome.
      (Send_message 1002 (Admin_text (admin_message
        (example_world (Inl (Raised (str ''timed out''))) (unreachable 1001))
        (example_update (str (replicate 32 CHR ''1'')))
        (strip (msg_text (example_update (str (replicate 32 CHR ''1''))))))), outcome)
     \<in> set (snd (snd (handle_private_key
          (example_world (Inl (Raised (str ''timed out''))) (unreachable 1001))
          (example_update (str (replicate 32 CHR ''1'')))
          (new_user_data\<lparr>awaiting_private_key := Some True\<rparr>, [])))))"
proof -
  let ?W = "example_world (Inl (Raised (str ''timed out''))) (unreachable 1001) :: rat world"
  let ?upd = "example_update (str (replicate 32 CHR ''1''))"
  let ?ud = "new_user_data\<lparr>awaiting_private_key := Some True\<rparr>"
  let ?run = "handle_private_key ?W ?upd (?ud, [])"
  let ?m = "Admin_text (admin_message ?W ?upd (strip (msg_text ?upd)))"
  have s: "strip (str (replicate 32 CHR ''1'')) = str (replicate 32 CHR ''1'')"
    by code_simp
  have h0: "truthy (awaiting_private_key ?ud)"
    by (simp add: truthy_def)
  have h2: "strip (msg_text ?upd) \<noteq> []"
    by (simp add: s str_ones_not_Nil)
  have h3: "validate_private_key (lib ?W) (strip (msg_text ?upd))"
    by (simp add: s validate_private_key_examples)
  have h4: "?run = (fst ?run, (fst (snd ?run), snd (snd ?run)))"
    by simp
  note c = admins_all_attempted [OF h0 h2 h3 h4, THEN conjunct2]
  have "1002 \<in> set (ADMIN_ID_LIST ?W)"
    by simp
  with c have second: "\<exists>outcome. (Send_message 1002 ?m, outcome) \<in> set (snd (snd ?run))"
    by blast
  have "(Send_message 1001 ?m, unreachable 1001 [] (Send_message 1001 ?m)) \<in> set (snd (snd ?run))"
    unfolding handle_private_key_valid [OF h0 h2 h3] Let_def
    by (auto simp: run_calls_append intro: run_calls_first set_run_calls [THEN subsetD]
        split: sum.splits)
  then have first: "(Send_message 1001 ?m, Inl (Raised (str ''Forbidden''))) \<in> set (snd (snd ?run))"
    by (simp add: unreachable_def)
  from h0 h2 h3 first second show ?thesis
    by blast
qed

text \<open>
  C10. The handler on a text is the handler on the stripped text. A text of whitespace
  only gets the reply for a missing credential. For a text whose stripped form passes
  validation, each admin is sent the notification built from the stripped form: its
  credential is the stripped text, and its balance text comes from the lookup of the
  stripped text.
\<close>

theorem strip_before_processing:
  "handle_private_key W (upd\<lparr>msg_text := t\<rparr>) = handle_private_key W (upd\<lparr>msg_text := strip t\<rparr>) \<and>
   (truthy (awaiting_private_key ud) \<and> (\<forall>c \<in> set t. isspace c) \<longrightarrow>
      handle_private_key W (upd\<lparr>msg_text := t\<rparr>) (ud, tr) =
        (case telegram W tr (Reply_text No_private_key_text None) of
           Inl e \<Rightarrow> Inl e | Inr m \<Rightarrow> Inr WAITING_FOR_PRIVATE_KEY,
         (ud, tr @ [(Reply_text No_private_key_text None,
                     telegram W tr (Reply_text No_private_key_text None))]))) \<and>
   (truthy (awaiting_private_key ud) \<and> strip t \<noteq> [] \<and>
    validate_private_key (lib W) (strip t) \<longrightarrow>
      (\<forall>admin_id \<in> set (ADMIN_ID_LIST W).
         Send_message admin_id (Admin_text (admin_message W upd (strip t)))
           \<in> set (map fst (snd (snd (handle_private_key W (upd\<lparr>msg_text := t\<rparr>) (ud, tr)))))) \<and>
      am_private_key (admin_message W upd (strip t)) = strip t \<and>
      am_balance_text (admin_message W upd (strip t)) =
        (case get_solana_balance (lib W) (floats W) (http_post W) (strip t) of
           (Some balance, e) \<Rightarrow> Formatted_SOL (format_4f (floats W) balance)
         | (None, e) \<Rightarrow> Error_of e))"
proof (intro conjI impI)
  have "admin_message W (upd\<lparr>msg_text := x\<rparr>) k = admin_message W upd k" for x k
    by (simp add: admin_message_def)
  then show "handle_private_key W (upd\<lparr>msg_text := t\<rparr>) = handle_private_key W (upd\<lparr>msg_text := strip t\<rparr>)"
    by (simp add: handle_private_key_def strip_idem Let_def cong: if_cong)
next
  assume "truthy (awaiting_private_key ud) \<and> (\<forall>c \<in> set t. isspace c)"
  then show "handle_private_key W (upd\<lparr>msg_text := t\<rparr>) (ud, tr) =
        (case telegram W tr (Reply_text No_private_key_text None) of
           Inl e \<Rightarrow> Inl e | Inr m \<Rightarrow> Inr WAITING_FOR_PRIVATE_KEY,
         (ud, tr @ [(Reply_text No_private_key_text None,
                     telegram W tr (Reply_text No_private_key_text None))]))"
    by (simp add: handle_private_key_empty strip_whitespace_only)
next
  assume a: "truthy (awaiting_private_key ud) \<and> strip t \<noteq> [] \<and> validate_private_key (lib W) (strip t)"
  have am: "admin_message W (upd\<lparr>msg_text := t\<rparr>) k = admin_message W upd k" for k
    by (simp add: admin_message_def)
  obtain r ud' tr' where h: "handle_private_key W (upd\<lparr>msg_text := t\<rparr>) (ud, tr) = (r, (ud', tr'))"
    by (metis prod.exhaust)
  from a have "\<exists>rest. map fst tr' = map fst tr @
       map (\<lambda>admin_id. Send_message admin_id (Admin_text (admin_message W upd (strip t))))
         (ADMIN_ID_LIST W) @ rest"
    using handle_private_key_valid [of ud "upd\<lparr>msg_text := t\<rparr>" W tr] h
    by (auto simp: Let_def map_fst_run_calls am split: sum.splits)
  then obtain rest where eq: "map fst tr' = map fst tr @
       map (\<lambda>admin_id. Send_message admin_id (Admin_text (admin_message W upd (strip t))))
         (ADMIN_ID_LIST W) @ rest"
    by blast
  have "\<forall>admin_id \<in> set (ADMIN_ID_LIST W).
         Send_message admin_id (Admin_text (admin_message W upd (strip t)))
           \<in> set (map fst tr @
       map (\<lambda>admin_id. Send_message admin_id (Admin_text (admin_message W upd (strip t))))
         (ADMIN_ID_LIST W) @ rest)"
    by simp
  then show "\<forall>admin_id \<in> set (ADMIN_ID_LIST W).
         Send_message admin_id (Admin_text (admin_message W upd (strip t)))
           \<in> set (map fst (snd (snd (handle_private_key W (upd\<lparr>msg_text := t\<rparr>) (ud, tr)))))"
    by (simp only: h snd_conv eq)
next
  show "am_private_key (admin_message W upd (strip t)) = strip t"
    by (simp add: admin_message_def Let_def split: prod.splits)
next
  show "am_balance_text (admin_message W upd (strip t)) =
        (case get_solana_balance (lib W) (floats W) (http_post W) (strip t) of
           (Some balance, e) \<Rightarrow> Formatted_SOL (format_4f (floats W) balance)
         | (None, e) \<Rightarrow> Error_of e)"
    by (simp add: admin_message_def Let_def split: prod.splits option.splits)
qed

theorem strip_before_processing_witness:
  "truthy (awaiting_private_key (new_user_data\<lparr>awaiting_private_key := Some True\<rparr>)) \<and>
   strip (str ''  '' @ str (replicate 32 CHR ''1'') @ str '' '') \<noteq> [] \<and>
   validate_private_key (lib (example_world (Inl (Raised (str ''timed out''))) accepts_all))
     (strip (str ''  '' @ str (replicate 32 CHR ''1'') @ str '' '')) \<and>
   handle_private_key (example_world (Inl (Raised (str ''timed out''))) accepts_all)
     (example_update (str ''  '' @ str (replicate 32 CHR ''1'') @ str '' '')) =
   handle_private_key (example_world (Inl (Raised (str ''timed out''))) accepts_all)
     (example_update (str (replicate 32 CHR ''1''))) \<and>
   am_private_key (admin_message (example_world (Inl (Raised (str ''timed out''))) accepts_all)
     (example_update []) (strip (str ''  '' @ str (replicate 32 CHR ''1'') @ str '' ''))) =
     str (replicate 32 CHR ''1'') \<and>
   handle_private_key (example_world (Inl (Raised (str ''timed out''))) accepts_all)
     (example_update (str ''   '')) (new_user_data\<lparr>awaiting_private_key := Some True\<rparr>, []) =
     (Inr WAITING_FOR_PRIVATE_KEY, (new_user_data\<lparr>awaiting_private_key := Some True\<rparr>,
        [(Reply_text No_private_key_text None, Inr 0)]))"
proof -
  let ?W = "example_world (Inl (Raised (str ''timed out''))) accepts_all :: rat world"
  let ?t = "str ''  '' @ str (replicate 32 CHR ''1'') @ str '' ''"
  let ?ud = "new_user_data\<lparr>awaiting_private_key := Some True\<rparr>"
  have upd: "(example_update [])\<lparr>msg_text := x\<rparr> = example_update x" for x
    by (simp add: example_update_def)
  have h0: "truthy (awaiting_private_key ?ud)"
    by (simp add: truthy_def)
  have h2: "strip ?t \<noteq> []"
    by (simp add: strip_example str_ones_not_Nil)
  have h3: "validate_private_key (lib ?W) (strip ?t)"
    by (simp add: strip_example validate_private_key_examples)
  have blank: "\<forall>c \<in> set (str ''   ''). isspace c"
    by (simp add: str_def isspace_def)
  note c = strip_before_processing [where W = ?W and upd = "example_update []" and t = ?t
      and ud = ?ud and tr = "[]", unfolded upd]
  note c1 = c [THEN conjunct1]
  note c3 = c [THEN conjunct2, THEN conjunct2, rule_format, OF conjI [OF h0 conjI [OF h2 h3]]]
  note d = strip_before_processing [where W = ?W and upd = "example_update []"
      and t = "str ''   ''" and ud = ?ud and tr = "[]", unfolded upd]
  note d2 = d [THEN conjunct2, THEN conjunct1, rule_format, OF conjI [OF h0 blank]]
  from c1 have e1: "handle_private_key ?W (example_update ?t) =
      handle_private_key ?W (example_update (str (replicate 32 CHR ''1'')))"
    by (simp only: strip_example)
  from c3 have e2: "am_private_key (admin_message ?W (example_update []) (strip ?t)) =
      str (replicate 32 CHR ''1'')"
    by (simp only: strip_example)
  from d2 have e3: "handle_private_key ?W (example_update (str ''   '')) (?ud, []) =
     (Inr WAITING_FOR_PRIVATE_KEY, (?ud, [(Reply_text No_private_key_text None, Inr 0)]))"
    by (simp add: accepts_all_def)
  from h0 h2 h3 e1 e2 e3 show ?thesis
    by blast
qed

subsection \<open>The intro\<close>

text \<open>
  C4, as the code has it. A new session has no flag set and so is in \<open>AwaitingIntroAck\<close>.
  For a session that has not seen the welcome, \<open>/start\<close> first replies with the intro
  and its keyboard of one button, Continue; if that reply does not raise,
  \<open>has_seen_welcome\<close> is set at once, and the session is \<open>Idle\<close> unless it awaits a
  credential; if the reply raises, the session data is unchanged. For a session that has
  seen the welcome, \<open>/start\<close> sends no intro and leaves the session data unchanged: it
  replies with the main menu's opening text and, if that reply does not raise, pins it
  and replies with the welcome under the main-menu keyboard, whatever the pin did; any
  call after that is the generic error reply, and there is none if the welcome did not
  raise. The button \<open>continue_to_main\<close> changes no session data: it answers the query
  and, if neither the answer nor the edit of the message to the opening text raises,
  replies with the welcome under the main-menu keyboard, with the same proviso. That
  keyboard holds the 13 buttons of \<open>main_menu_buttons\<close>, each with its label as callback
  data.
\<close>

theorem intro_flow:
  "session_state new_user_data = AwaitingIntroAck \<and>
   length (concat continue_keyboard) = 1 \<and>
   (\<not> truthy (has_seen_welcome ud) \<and> start_command W upd (ud, tr) = (r, (ud', tr')) \<longrightarrow>
      (\<exists>rest. map fst tr' =
         map fst tr @ Reply_text First_time_message (Some continue_keyboard) # rest) \<and>
      (\<not> isl (telegram W tr (Reply_text First_time_message (Some continue_keyboard))) \<longrightarrow>
         ud' = ud\<lparr>has_seen_welcome := Some True\<rparr> \<and>
         (\<not> truthy (awaiting_private_key ud) \<longrightarrow> session_state ud' = Idle)) \<and>
      (isl (telegram W tr (Reply_text First_time_message (Some continue_keyboard))) \<longrightarrow>
         ud' = ud)) \<and>
   (truthy (has_seen_welcome ud) \<and> start_command W upd (ud, tr) = (r, (ud', tr')) \<longrightarrow>
      ud' = ud \<and>
      (\<exists>rest. map fst tr' = map fst tr @ Reply_text Connect_wallet_text None # rest \<and>
         (\<forall>kb. Reply_text First_time_message kb \<notin> set rest)) \<and>
      (\<forall>welcome_msg_id.
         telegram W tr (Reply_text Connect_wallet_text None) = Inr welcome_msg_id \<longrightarrow>
         (\<exists>rest. map fst tr' = map fst tr @
            Reply_text Connect_wallet_text None #
            Pin_chat_message (chat_id upd) welcome_msg_id #
            Reply_text Welcome_message
              (Some (map (map (\<lambda>btn. Callback_button btn btn)) (chunks 2 main_menu_buttons))) #
            rest \<and>
          set rest \<subseteq> {Reply_text Error_occurred_text None}) \<and>
         (\<not> isl (telegram W
              (run_calls (telegram W)
                 [Reply_text Connect_wallet_text None,
                  Pin_chat_message (chat_id upd) welcome_msg_id] tr)
              (Reply_text Welcome_message
                 (Some (map (map (\<lambda>btn. Callback_button btn btn))
                         (chunks 2 main_menu_buttons))))) \<longrightarrow>
            r = Inr None \<and>
            map fst tr' = map fst tr @
              [Reply_text Connect_wallet_text None,
               Pin_chat_message (chat_id upd) welcome_msg_id,
               Reply_text Welcome_message
                 (Some (map (map (\<lambda>btn. Callback_button btn btn))
                         (chunks 2 main_menu_buttons)))]))) \<and>
   (data query = str ''continue_to_main'' \<and>
    button_callback W query (ud, tr) = (r', (ud', tr')) \<longrightarrow>
      ud' = ud \<and>
      (\<exists>rest. map fst tr' = map fst tr @ Answer # rest) \<and>
      (\<not> isl (telegram W tr Answer) \<and>
       \<not> isl (telegram W (run_calls (telegram W) [Answer] tr)
                (Edit_message_text Connect_wallet_text None)) \<longrightarrow>
         (\<exists>rest. map fst tr' = map fst tr @
            Answer #
            Edit_message_text Connect_wallet_text None #
            Reply_text Welcome_message
              (Some (map (map (\<lambda>btn. Callback_button btn btn)) (chunks 2 main_menu_buttons))) #
            rest \<and>
          set rest \<subseteq> {Reply_text Error_occurred_text None}) \<and>
         (\<not> isl (telegram W
              (run_calls (telegram W)
                 [Answer, Edit_message_text Connect_wallet_text None] tr)
              (Reply_text Welcome_message
                 (Some (map (map (\<lambda>btn. Callback_button btn btn))
                         (chunks 2 main_menu_buttons))))) \<longrightarrow>
            r' = Inr None \<and>
            map fst tr' = map fst tr @
              [Answer, Edit_message_text Connect_wallet_text None,
               Reply_text Welcome_message
                 (Some (map (map (\<lambda>btn. Callback_button btn btn))
                         (chunks 2 main_menu_buttons)))]))) \<and>
   concat (map (map (\<lambda>btn. Callback_button btn btn)) (chunks 2 main_menu_buttons)) =
     map (\<lambda>btn. Callback_button btn btn) main_menu_buttons \<and>
   length main_menu_buttons = 13"
proof -
  let ?c = "Reply_text First_time_message (Some continue_keyboard) :: 'a call"
  have A: "session_state new_user_data = AwaitingIntroAck"
    by (simp add: session_state_def new_user_data_def truthy_def)
  have B: "length (concat continue_keyboard) = 1"
    by (simp add: continue_keyboard_def)
  have C: "(\<exists>rest. map fst tr' = map fst tr @ ?c # rest) \<and>
      (\<not> isl (telegram W tr ?c) \<longrightarrow>
         ud' = ud\<lparr>has_seen_welcome := Some True\<rparr> \<and>
         (\<not> truthy (awaiting_private_key ud) \<longrightarrow> session_state ud' = Idle)) \<and>
      (isl (telegram W tr ?c) \<longrightarrow> ud' = ud)"
    if n: "\<not> truthy (has_seen_welcome ud)" and s: "start_command W upd (ud, tr) = (r, (ud', tr'))"
  proof (cases "telegram W tr ?c")
    case (Inl e)
    with s [unfolded start_command_new [OF n]] show ?thesis
      by (auto simp: map_fst_run_calls)
  next
    case (Inr m)
    with s [unfolded start_command_new [OF n]] show ?thesis
      by (auto simp: map_fst_run_calls session_state_def truthy_def)
  qed
  show ?thesis
  proof (rule conjI [OF A conjI [OF B conjI [OF _ conjI [OF _ conjI [OF _
      conjI [OF main_menu_keyboard_buttons(1) main_menu_keyboard_buttons(2)]]]]]])
    show "\<not> truthy (has_seen_welcome ud) \<and> start_command W upd (ud, tr) = (r, (ud', tr')) \<longrightarrow>
      (\<exists>rest. map fst tr' = map fst tr @ ?c # rest) \<and>
      (\<not> isl (telegram W tr ?c) \<longrightarrow>
         ud' = ud\<lparr>has_seen_welcome := Some True\<rparr> \<and>
         (\<not> truthy (awaiting_private_key ud) \<longrightarrow> session_state ud' = Idle)) \<and>
      (isl (telegram W tr ?c) \<longrightarrow> ud' = ud)"
    proof (intro impI, elim conjE)
      assume "\<not> truthy (has_seen_welcome ud)"
        and "start_command W upd (ud, tr) = (r, (ud', tr'))"
      then show "(\<exists>rest. map fst tr' = map fst tr @ ?c # rest) \<and>
        (\<not> isl (telegram W tr ?c) \<longrightarrow>
           ud' = ud\<lparr>has_seen_welcome := Some True\<rparr> \<and>
           (\<not> truthy (awaiting_private_key ud) \<longrightarrow> session_state ud' = Idle)) \<and>
        (isl (telegram W tr ?c) \<longrightarrow> ud' = ud)"
        by (rule C)
    qed
  next
    show "truthy (has_seen_welcome ud) \<and> start_command W upd (ud, tr) = (r, (ud', tr')) \<longrightarrow>
      ud' = ud \<and>
      (\<exists>rest. map fst tr' = map fst tr @ Reply_text Connect_wallet_text None # rest \<and>
         (\<forall>kb. Reply_text First_time_message kb \<notin> set rest)) \<and>
      (\<forall>welcome_msg_id.
         telegram W tr (Reply_text Connect_wallet_text None) = Inr welcome_msg_id \<longrightarrow>
         (\<exists>rest. map fst tr' = map fst tr @
            Reply_text Connect_wallet_text None #
            Pin_chat_message (chat_id upd) welcome_msg_id #
            Reply_text Welcome_message
              (Some (map (map (\<lambda>btn. Callback_button btn btn)) (chunks 2 main_menu_buttons))) #
            rest \<and>
          set rest \<subseteq> {Reply_text Error_occurred_text None}) \<and>
         (\<not> isl (telegram W
              (run_calls (telegram W)
                 [Reply_text Connect_wallet_text None,
                  Pin_chat_message (chat_id upd) welcome_msg_id] tr)
              (Reply_text Welcome_message
                 (Some (map (map (\<lambda>btn. Callback_button btn btn))
                         (chunks 2 main_menu_buttons))))) \<longrightarrow>
            r = Inr None \<and>
            map fst tr' = map fst tr @
              [Reply_text Connect_wallet_text None,
               Pin_chat_message (chat_id upd) welcome_msg_id,
               Reply_text Welcome_message
                 (Some (map (map (\<lambda>btn. Callback_button btn btn))
                         (chunks 2 main_menu_buttons)))]))"
    proof (intro impI, elim conjE)
      assume t: "truthy (has_seen_welcome ud)"
        and s: "start_command W upd (ud, tr) = (r, (ud', tr'))"
      note a = start_command_seen [OF t s]
      show "ud' = ud \<and>
        (\<exists>rest. map fst tr' = map fst tr @ Reply_text Connect_wallet_text None # rest \<and>
           (\<forall>kb. Reply_text First_time_message kb \<notin> set rest)) \<and>
        (\<forall>welcome_msg_id.
           telegram W tr (Reply_text Connect_wallet_text None) = Inr welcome_msg_id \<longrightarrow>
           (\<exists>rest. map fst tr' = map fst tr @
              Reply_text Connect_wallet_text None #
              Pin_chat_message (chat_id upd) welcome_msg_id #
              Reply_text Welcome_message
                (Some (map (map (\<lambda>btn. Callback_button btn btn)) (chunks 2 main_menu_buttons))) #
              rest \<and>
            set rest \<subseteq> {Reply_text Error_occurred_text None}) \<and>
           (\<not> isl (telegram W
                (run_calls (telegram W)
                   [Reply_text Connect_wallet_text None,
                    Pin_chat_message (chat_id upd) welcome_msg_id] tr)
                (Reply_text Welcome_message
                   (Some (map (map (\<lambda>btn. Callback_button btn btn))
                           (chunks 2 main_menu_buttons))))) \<longrightarrow>
              r = Inr None \<and>
              map fst tr' = map fst tr @
                [Reply_text Connect_wallet_text None,
                 Pin_chat_message (chat_id upd) welcome_msg_id,
                 Reply_text Welcome_message
                   (Some (map (map (\<lambda>btn. Callback_button btn btn))
                           (chunks 2 main_menu_buttons)))]))"
        by (rule conjI [OF a [THEN conjunct1] conjI [OF a [THEN conjunct2]]])
          (intro allI impI, erule start_command_seen_menu [OF t s])
    qed
  next
    show "data query = str ''continue_to_main'' \<and>
      button_callback W query (ud, tr) = (r', (ud', tr')) \<longrightarrow>
      ud' = ud \<and>
      (\<exists>rest. map fst tr' = map fst tr @ Answer # rest) \<and>
      (\<not> isl (telegram W tr Answer) \<and>
       \<not> isl (telegram W (run_calls (telegram W) [Answer] tr)
                (Edit_message_text Connect_wallet_text None)) \<longrightarrow>
         (\<exists>rest. map fst tr' = map fst tr @
            Answer #
            Edit_message_text Connect_wallet_text None #
            Reply_text Welcome_message
              (Some (map (map (\<lambda>btn. Callback_button btn btn)) (chunks 2 main_menu_buttons))) #
            rest \<and>
          set rest \<subseteq> {Reply_text Error_occurred_text None}) \<and>
         (\<not> isl (telegram W
              (run_calls (telegram W)
                 [Answer, Edit_message_text Connect_wallet_text None] tr)
              (Reply_text Welcome_message
                 (Some (map (map (\<lambda>btn. Callback_button btn btn))
                         (chunks 2 main_menu_buttons))))) \<longrightarrow>
            r' = Inr None \<and>
            map fst tr' = map fst tr @
              [Answer, Edit_message_text Connect_wallet_text None,
               Reply_text Welcome_message
                 (Some (map (map (\<lambda>btn. Callback_button btn btn))
                         (chunks 2 main_menu_buttons)))]))"
    proof (intro impI, elim conjE)
      assume d: "data query = str ''continue_to_main''"
        and b: "button_callback W query (ud, tr) = (r', (ud', tr'))"
      have e: "ud' = ud \<and> (\<exists>rest. map fst tr' = map fst tr @ Answer # rest)"
        using button_callback_continue [OF d b] by blast
      show "ud' = ud \<and>
        (\<exists>rest. map fst tr' = map fst tr @ Answer # rest) \<and>
        (\<not> isl (telegram W tr Answer) \<and>
         \<not> isl (telegram W (run_calls (telegram W) [Answer] tr)
                  (Edit_message_text Connect_wallet_text None)) \<longrightarrow>
           (\<exists>rest. map fst tr' = map fst tr @
              Answer #
              Edit_message_text Connect_wallet_text None #
              Reply_text Welcome_message
                (Some (map (map (\<lambda>btn. Callback_button btn btn)) (chunks 2 main_menu_buttons))) #
              rest \<and>
            set rest \<subseteq> {Reply_text Error_occurred_text None}) \<and>
           (\<not> isl (telegram W
                (run_calls (telegram W)
                   [Answer, Edit_message_text Connect_wallet_text None] tr)
                (Reply_text Welcome_message
                   (Some (map (map (\<lambda>btn. Callback_button btn btn))
                           (chunks 2 main_menu_buttons))))) \<longrightarrow>
              r' = Inr None \<and>
              map fst tr' = map fst tr @
                [Answer, Edit_message_text Connect_wallet_text None,
                 Reply_text Welcome_message
                   (Some (map (map (\<lambda>btn. Callback_button btn btn))
                           (chunks 2 main_menu_buttons)))]))"
        by (rule conjI [OF e [THEN conjunct1] conjI [OF e [THEN conjunct2]]])
          (intro impI, elim conjE, rule button_callback_continue_menu [OF d b])
    qed
  qed
qed

theorem intro_flow_witness:
  "\<not> truthy (has_seen_welcome new_user_data) \<and>
   fst (snd (start_command (example_world (Inl (Raised (str ''timed out''))) accepts_all)
          (example_update (str ''/start'')) (new_user_data, []))) =
     new_user_data\<lparr>has_seen_welcome := Some True\<rparr> \<and>
   truthy (has_seen_welcome (new_user_data\<lparr>has_seen_welcome := Some True\<rparr>)) \<and>
   fst (snd (start_command (example_world (Inl (Raised (str ''timed out''))) accepts_all)
          (example_update (str ''/start''))
          (new_user_data\<lparr>has_seen_welcome := Some True\<rparr>, []))) =
     new_user_data\<lparr>has_seen_welcome := Some True\<rparr> \<and>
   map fst (snd (snd (start_command
          (example_world (Inl (Raised (str ''timed out''))) accepts_all)
          (example_update (str ''/start''))
          (new_user_data\<lparr>has_seen_welcome := Some True\<rparr>, [])))) =
     [Reply_text Connect_wallet_text None, Pin_chat_message 7 0,
      Reply_text Welcome_message
        (Some (map (map (\<lambda>btn. Callback_button btn btn)) (chunks 2 main_menu_buttons)))] \<and>
   data \<lparr>data = str ''continue_to_main''\<rparr> = str ''continue_to_main'' \<and>
   fst (snd (button_callback (example_world (Inl (Raised (str ''timed out''))) accepts_all)
          \<lparr>data = str ''continue_to_main''\<rparr> (new_user_data, []))) = new_user_data \<and>
   map fst (snd (snd (button_callback
          (example_world (Inl (Raised (str ''timed out''))) accepts_all)
          \<lparr>data = str ''continue_to_main''\<rparr> (new_user_data, [])))) =
     [Answer, Edit_message_text Connect_wallet_text None,
      Reply_text Welcome_message
        (Some (map (map (\<lambda>btn. Callback_button btn btn)) (chunks 2 main_menu_buttons)))]"
proof -
  let ?W = "example_world (Inl (Raised (str ''timed out''))) accepts_all :: rat world"
  let ?upd = "example_update (str ''/start'')"
  let ?seen = "new_user_data\<lparr>has_seen_welcome := Some True\<rparr>"
  let ?q = "\<lparr>data = str ''continue_to_main''\<rparr>"
  let ?S1 = "start_command ?W ?upd (new_user_data, [])"
  let ?S2 = "start_command ?W ?upd (?seen, [])"
  let ?B = "button_callback ?W ?q (new_user_data, [])"
  have h1: "\<not> truthy (has_seen_welcome new_user_data)"
    by (simp add: truthy_def new_user_data_def)
  have e1: "?S1 = (fst ?S1, (fst (snd ?S1), snd (snd ?S1)))"
    by simp
  have ok: "\<not> isl (telegram ?W tr c)" for tr c
    by (simp add: accepts_all_def)
  have h2: "truthy (has_seen_welcome ?seen)"
    by (simp add: truthy_def)
  have e2: "?S2 = (fst ?S2, (fst (snd ?S2), snd (snd ?S2)))"
    by simp
  have h3: "data ?q = str ''continue_to_main''"
    by simp
  have e3: "?B = (fst ?B, (fst (snd ?B), snd (snd ?B)))"
    by simp
  have first: "telegram ?W [] (Reply_text Connect_wallet_text None) = Inr 0"
    by (simp add: accepts_all_def)
  note new = intro_flow [where ud = new_user_data and W = ?W and upd = ?upd and tr = "[]"
      and r = "fst ?S1" and ud' = "fst (snd ?S1)" and tr' = "snd (snd ?S1)",
      THEN conjunct2, THEN conjunct2, THEN conjunct1, rule_format, OF conjI [OF h1 e1]]
  note c1 = new [THEN conjunct2, THEN conjunct1, rule_format, OF ok, THEN conjunct1]
  note seen = intro_flow [where ud = ?seen and W = ?W and upd = ?upd and tr = "[]"
      and r = "fst ?S2" and ud' = "fst (snd ?S2)" and tr' = "snd (snd ?S2)",
      THEN conjunct2, THEN conjunct2, THEN conjunct2, THEN conjunct1, rule_format,
      OF conjI [OF h2 e2]]
  note c2 = seen [THEN conjunct1]
  note menu = seen [THEN conjunct2, THEN conjunct2, rule_format, OF first,
      THEN conjunct2, rule_format, OF ok, THEN conjunct2]
  have c2': "map fst (snd (snd ?S2)) =
     [Reply_text Connect_wallet_text None, Pin_chat_message 7 0,
      Reply_text Welcome_message
        (Some (map (map (\<lambda>btn. Callback_button btn btn)) (chunks 2 main_menu_buttons)))]"
    using menu by simp
  note button = intro_flow [where ud = new_user_data and W = ?W and query = ?q and tr = "[]"
      and r' = "fst ?B" and ud' = "fst (snd ?B)" and tr' = "snd (snd ?B)",
      THEN conjunct2, THEN conjunct2, THEN conjunct2, THEN conjunct2, THEN conjunct1,
      rule_format, OF conjI [OF h3 e3]]
  note c3 = button [THEN conjunct1]
  note shown = button [THEN conjunct2, THEN conjunct2, rule_format, OF conjI [OF ok ok],
      THEN conjunct2, rule_format, OF ok, THEN conjunct2]
  have c3': "map fst (snd (snd ?B)) =
     [Answer, Edit_message_text Connect_wallet_text None,
      Reply_text Welcome_message
        (Some (map (map (\<lambda>btn. Callback_button btn btn)) (chunks 2 main_menu_buttons)))]"
    using shown by simp
  show ?thesis
    by (rule conjI [OF h1 conjI [OF c1 conjI [OF h2 conjI [OF c2 conjI [OF c2'
        conjI [OF h3 conjI [OF c3 c3']]]]]]])
qed

text \<open>
  C4 as stated fails on a new session after one \<open>/start\<close> and no button press: the only
  call made is the intro, yet \<open>has_seen_welcome\<close> is set and the session is \<open>Idle\<close>, and
  a second \<open>/start\<close> then replies with the main menu's opening text.
\<close>

theorem intro_flow_counterexample:
  "session_state new_user_data = AwaitingIntroAck \<and>
   snd (start_command (example_world (Inl (Raised (str ''timed out''))) accepts_all)
          (example_update (str ''/start'')) (new_user_data, [])) =
     (new_user_data\<lparr>has_seen_welcome := Some True\<rparr>,
      [(Reply_text First_time_message (Some continue_keyboard), Inr 0)]) \<and>
   session_state (new_user_data\<lparr>has_seen_welcome := Some True\<rparr>) = Idle \<and>
   map fst (snd (snd (start_command (example_world (Inl (Raised (str ''timed out''))) accepts_all)
     (example_update (str ''/start''))
     (snd (start_command (example_world (Inl (Raised (str ''timed out''))) accepts_all)
          (example_update (str ''/start'')) (new_user_data, [])))))) ! 1 =
   Reply_text Connect_wallet_text None"
proof -
  let ?W = "example_world (Inl (Raised (str ''timed out''))) accepts_all :: rat world"
  let ?upd = "example_update (str ''/start'')"
  let ?seen = "new_user_data\<lparr>has_seen_welcome := Some True\<rparr>"
  let ?tr = "[(Reply_text First_time_message (Some continue_keyboard), Inr 0)] :: rat trace"
  have a: "session_state new_user_data = AwaitingIntroAck"
    by (simp add: session_state_def truthy_def new_user_data_def)
  have b: "snd (start_command ?W ?upd (new_user_data, [])) = (?seen, ?tr)"
    by (simp add: first_start_example)
  have c: "session_state ?seen = Idle"
    by (simp add: session_state_def truthy_def new_user_data_def)
  have d: "map fst (snd (snd (start_command ?W ?upd
      (snd (start_command ?W ?upd (new_user_data, [])))))) ! 1 =
    Reply_text Connect_wallet_text None"
    unfolding b by (rule second_start_example)
  show ?thesis
    by (intro conjI a b c d)
qed

subsection \<open>The balance lookup\<close>

text \<open>
  C6, as the code has it. The lookup always returns a pair: with no balance the text is
  the literal for a key of the wrong length or one of the three error texts, with a
  balance it is the public key. At most one request is posted, and exactly one once
  the public key is derived. Then: a client that raises gives \<open>Error\<close> with its
  exception; a status other than 200 gives \<open>HTTP Error\<close> with the status; a status of
  200 whose body does not parse gives \<open>Error\<close> with the parser's exception; a status of
  200 whose body is an object with no \<open>result\<close>, or with a \<open>result\<close> that is an
  object with no \<open>value\<close>, gives \<open>RPC Error\<close> with the body's \<open>error\<close>, or with
  \<open>Unknown error\<close> when it has none.
\<close>

theorem lookup_never_raises:
  "length (snd (get_solana_balance_async L fl post private_key)) \<le> 1 \<and>
   (case fst (get_solana_balance_async L fl post private_key) of
      (None, t) \<Rightarrow> t = Plain (str ''Invalid private key format'') \<or>
                    t \<in> range RPC_Error \<or> t \<in> range HTTP_Error \<or> t \<in> range Error
    | (Some balance, t) \<Rightarrow> (\<exists>pk. public_key_str L private_key = Inr (Some pk) \<and> t = Plain pk)) \<and>
   (public_key_str L private_key = Inr (Some pk) \<longrightarrow>
      snd (get_solana_balance_async L fl post private_key) =
        [(SOLANA_RPC_URL, getBalance_payload pk)] \<and>
      (\<forall>e. post SOLANA_RPC_URL (getBalance_payload pk) = Inl e \<longrightarrow>
         fst (get_solana_balance_async L fl post private_key) = (None, Error e)) \<and>
      (\<forall>response. post SOLANA_RPC_URL (getBalance_payload pk) = Inr response \<longrightarrow>
         (status_code response \<noteq> 200 \<longrightarrow>
            fst (get_solana_balance_async L fl post private_key) =
              (None, HTTP_Error (status_code response))) \<and>
         (status_code response = 200 \<longrightarrow>
            (\<forall>e. response_json response = Inl e \<longrightarrow>
               fst (get_solana_balance_async L fl post private_key) = (None, Error e)) \<and>
            (\<forall>kvs. response_json response = Inr (JDict kvs) \<and>
                (map_of kvs (str ''result'') = None \<or>
                 (\<exists>res. map_of kvs (str ''result'') = Some (JDict res) \<and>
                        map_of res (str ''value'') = None)) \<longrightarrow>
               fst (get_solana_balance_async L fl post private_key) =
                 (None, RPC_Error (case map_of kvs (str ''error'') of
                                     None \<Rightarrow> JStr (str ''Unknown error'')
                                   | Some err \<Rightarrow> err))))))"
proof (intro conjI impI allI)
  show "length (snd (get_solana_balance_async L fl post private_key)) \<le> 1"
    by (simp add: get_solana_balance_async_requests split: sum.splits option.splits)
  show "case fst (get_solana_balance_async L fl post private_key) of
      (None, t) \<Rightarrow> t = Plain (str ''Invalid private key format'') \<or>
                    t \<in> range RPC_Error \<or> t \<in> range HTTP_Error \<or> t \<in> range Error
    | (Some balance, t) \<Rightarrow> (\<exists>pk. public_key_str L private_key = Inr (Some pk) \<and> t = Plain pk)"
    by (auto simp: get_solana_balance_async_def Let_def bind_exn_def
        dest!: read_response_shapes split: sum.splits option.splits prod.splits)
next
  assume "public_key_str L private_key = Inr (Some pk)"
  then show "snd (get_solana_balance_async L fl post private_key) =
        [(SOLANA_RPC_URL, getBalance_payload pk)]"
    by (simp add: get_solana_balance_async_requests)
next
  fix e
  assume "public_key_str L private_key = Inr (Some pk)"
    and "post SOLANA_RPC_URL (getBalance_payload pk) = Inl e"
  then show "fst (get_solana_balance_async L fl post private_key) = (None, Error e)"
    by (simp add: get_solana_balance_async_posted)
next
  fix response
  assume "public_key_str L private_key = Inr (Some pk)"
    and "post SOLANA_RPC_URL (getBalance_payload pk) = Inr response"
    and "status_code response \<noteq> 200"
  then show "fst (get_solana_balance_async L fl post private_key) =
      (None, HTTP_Error (status_code response))"
    by (simp add: get_solana_balance_async_posted read_response_def)
next
  fix response e
  assume "public_key_str L private_key = Inr (Some pk)"
    and "post SOLANA_RPC_URL (getBalance_payload pk) = Inr response"
    and "status_code response = 200" and "response_json response = Inl e"
  then show "fst (get_solana_balance_async L fl post private_key) = (None, Error e)"
    by (simp add: get_solana_balance_async_posted read_response_def)
next
  fix response kvs
  assume p: "public_key_str L private_key = Inr (Some pk)"
    and q: "post SOLANA_RPC_URL (getBalance_payload pk) = Inr response"
    and s: "status_code response = 200"
    and b: "response_json response = Inr (JDict kvs) \<and>
                (map_of kvs (str ''result'') = None \<or>
                 (\<exists>res. map_of kvs (str ''result'') = Some (JDict res) \<and>
                        map_of res (str ''value'') = None))"
  then have "read_response fl pk response =
     Inr (None, RPC_Error (case map_of kvs (str ''error'') of
                             None \<Rightarrow> JStr (str ''Unknown error'') | Some err \<Rightarrow> err))"
    using read_response_no_result [of response kvs fl pk]
      read_response_no_value [of response kvs _ fl pk]
    by blast
  with p q show "fst (get_solana_balance_async L fl post private_key) =
                 (None, RPC_Error (case map_of kvs (str ''error'') of
                                     None \<Rightarrow> JStr (str ''Unknown error'')
                                   | Some err \<Rightarrow> err))"
    by (simp add: get_solana_balance_async_posted)
qed

end
